theory Spec2Isabelle
  imports Main "HOL-Library.Word" "HOL-Library.Sublist"
begin

section \<open>GleSYS server module: a shallow embedding of \<open>plugins/modules/server.py\<close>\<close>

text \<open>
  The module reconciles one server of the GleSYS cloud with the parameters of an Ansible
  task. Everything it does beyond computing values is an HTTP request, a sleep, a print or
  a read of random bytes; the embedding records these in a trace and takes the answers of
  the provider and of the random source from an environment.
\<close>

subsection \<open>JSON values and Python dictionaries\<close>

text \<open>
  The values the module handles: \<open>None\<close>, integers, strings, lists and dictionaries.
  Booleans and floats do not occur in the fields the module reads or compares. A dictionary
  keeps its items in insertion order, with distinct keys.
\<close>

datatype json = JNone | JInt int | JStr string | JList "json list" | JDict "(string \<times> json) list"

type_synonym dict = "(string \<times> json) list"

datatype pyerr = KeyError | TypeError | AttributeError | UnboundLocalError | ValueError

text \<open>\<open>d[k]\<close> on a dictionary.\<close>

definition getitem :: "dict \<Rightarrow> string \<Rightarrow> pyerr + json" where
  "getitem d k = (case map_of d k of None \<Rightarrow> Inl KeyError | Some v \<Rightarrow> Inr v)"

text \<open>\<open>x[k]\<close> with a string key on any value: only a dictionary accepts it.\<close>

fun subscript :: "json \<Rightarrow> string \<Rightarrow> pyerr + json" where
  "subscript (JDict d) k = getitem d k"
| "subscript JNone k = Inl TypeError"
| "subscript (JInt i) k = Inl TypeError"
| "subscript (JStr s) k = Inl TypeError"
| "subscript (JList xs) k = Inl TypeError"

text \<open>\<open>d[k] = v\<close>: an existing key keeps its position, a new key goes last.\<close>

fun setitem :: "dict \<Rightarrow> string \<Rightarrow> json \<Rightarrow> dict" where
  "setitem [] k v = [(k, v)]"
| "setitem ((k', v') # d) k v = (if k' = k then (k, v) # d else (k', v') # setitem d k v)"

text \<open>\<open>d.update(j)\<close> for a dictionary \<open>j\<close>.\<close>

fun dict_update :: "dict \<Rightarrow> dict \<Rightarrow> dict" where
  "dict_update d [] = d"
| "dict_update d ((k, v) # j) = dict_update (setitem d k v) j"

text \<open>Truth value of a value in \<open>if v\<close> and \<open>not v\<close>.\<close>

fun truthy :: "json \<Rightarrow> bool" where
  "truthy JNone = False"
| "truthy (JInt i) = (i \<noteq> 0)"
| "truthy (JStr s) = (s \<noteq> [])"
| "truthy (JList xs) = (xs \<noteq> [])"
| "truthy (JDict d) = (d \<noteq> [])"

text \<open>\<open>for i in x\<close>: a list gives its elements, a string its characters, a dictionary its keys.\<close>

fun iterate :: "json \<Rightarrow> pyerr + json list" where
  "iterate (JList xs) = Inr xs"
| "iterate (JStr s) = Inr (map (\<lambda>c. JStr [c]) s)"
| "iterate (JDict d) = Inr (map (\<lambda>kv. JStr (fst kv)) d)"
| "iterate JNone = Inl TypeError"
| "iterate (JInt i) = Inl TypeError"

text \<open>\<open>len(x)\<close>.\<close>

fun py_len :: "json \<Rightarrow> pyerr + nat" where
  "py_len (JStr s) = Inr (length s)"
| "py_len (JList xs) = Inr (length xs)"
| "py_len (JDict d) = Inr (length d)"
| "py_len JNone = Inl TypeError"
| "py_len (JInt i) = Inl TypeError"

text \<open>\<open>"..." + x\<close>: concatenation to a string needs a string.\<close>

fun as_str :: "json \<Rightarrow> pyerr + string" where
  "as_str (JStr s) = Inr s"
| "as_str JNone = Inl TypeError"
| "as_str (JInt i) = Inl TypeError"
| "as_str (JList xs) = Inl TypeError"
| "as_str (JDict d) = Inl TypeError"

subsection \<open>Effects: trace, results and sequencing\<close>

text \<open>
  A request is the method, the URL and the JSON body of one \<open>fetch_url\<close> call. The provider
  answers with an HTTP status of 400 or more, carrying the text at
  \<open>response.status.text\<close> of the body, or with a body. Bodies are taken in the shapes the
  module reads: \<open>{"response": {"servers": [...]}}\<close>, \<open>{"response": {"server": {...}}}\<close>,
  or an empty body, which \<open>parse_response\<close> turns into \<open>{}\<close>.
\<close>

datatype request = Request string string "dict option"

datatype reply = HttpError string | Reply_servers "dict list" | Reply_server dict | Reply_empty

datatype event = Fetch request | Sleep int | Urandom int | Print string

text \<open>
  How a call ends: \<open>exit_json\<close> (with \<open>changed\<close>, \<open>msg\<close> and \<open>server\<close>) and \<open>fail_json\<close> leave the
  process, an uncaught exception does too.
\<close>

datatype exit = Exit_json bool "string option" "dict option" | Fail_json string | Raised pyerr

text \<open>
  A computation returns a value, stops the process, or is still inside a wait loop when the
  fuel given to that loop is used up.
\<close>

datatype 'a res = Done 'a | Stop exit | OutOfFuel

type_synonym 'a io = "event list \<Rightarrow> 'a res \<times> event list"

definition ret :: "'a \<Rightarrow> 'a io" where
  "ret x tr = (Done x, tr)"

definition stop :: "exit \<Rightarrow> 'a io" where
  "stop x tr = (Stop x, tr)"

definition bind :: "'a io \<Rightarrow> ('a \<Rightarrow> 'b io) \<Rightarrow> 'b io" where
  "bind m f tr = (case m tr of
      (Done x, tr') \<Rightarrow> f x tr'
    | (Stop x, tr') \<Rightarrow> (Stop x, tr')
    | (OutOfFuel, tr') \<Rightarrow> (OutOfFuel, tr'))"

text \<open>A pure Python expression that may raise.\<close>

definition lift :: "pyerr + 'a \<Rightarrow> 'a io" where
  "lift r = (case r of Inl e \<Rightarrow> stop (Raised e) | Inr x \<Rightarrow> ret x)"

definition emit :: "event \<Rightarrow> unit io" where
  "emit ev tr = (Done (), tr @ [ev])"

definition sleep :: "int \<Rightarrow> unit io" where
  "sleep n = emit (Sleep n)"

definition py_print :: "string \<Rightarrow> unit io" where
  "py_print s = emit (Print s)"

subsection \<open>The module's parameters and its environment\<close>

text \<open>
  \<open>module.params\<close> after the argument specification has been applied: every parameter has
  its declared type, or is \<open>None\<close> where the task gave none and the default is \<open>None\<close>.
\<close>

record params =
  p_serverid :: "string option"
  p_hostname :: "string option"
  p_cpus :: "int option"
  p_memory :: "int option"
  p_disk :: "int option"
  p_bandwidth :: "int option"
  p_password :: "string option"
  p_ssh_pub_key :: "string option"
  p_datacenter :: "string option"
  p_template :: "string option"
  p_platform :: "string option"
  p_state :: string
  p_users :: json
  p_description :: "string option"
  p_wait :: bool

definition jstr :: "string option \<Rightarrow> json" where
  "jstr x = (case x of None \<Rightarrow> JNone | Some s \<Rightarrow> JStr s)"

definition jint :: "int option \<Rightarrow> json" where
  "jint x = (case x of None \<Rightarrow> JNone | Some i \<Rightarrow> JInt i)"

text \<open>
  The environment of a run: the parameters, Ansible's check mode, the provider (its reply
  to a request may depend on everything that happened before) and the bytes of
  \<open>os.urandom\<close>.
\<close>

record env =
  module_params :: params
  check_mode :: bool
  respond :: "event list \<Rightarrow> request \<Rightarrow> reply"
  entropy :: "event list \<Rightarrow> nat \<Rightarrow> 8 word"

subsection \<open>\<open>generate_temp_password\<close>\<close>

definition chars :: string where
  "chars = ''ABCDEFGHJKLMNPQRSTUVWXYZ23456789''"

definition urandom :: "env \<Rightarrow> int \<Rightarrow> (8 word) list io" where
  "urandom e n tr = (Done (map (entropy e tr) [0..<nat n]), tr @ [Urandom n])"

definition generate_temp_password :: "env \<Rightarrow> int \<Rightarrow> string io" where
  "generate_temp_password e len =
     (if len < 8 then stop (Raised ValueError)
      else bind (urandom e len) (\<lambda>bs. ret (map (\<lambda>c. chars ! (unat c mod length chars)) bs)))"

subsection \<open>\<open>GlesysApi\<close>: transport\<close>

definition GLESYS_API_ENDPOINT :: string where
  "GLESYS_API_ENDPOINT = ''https://api.glesys.com/''"

text \<open>
  One \<open>fetch_url\<close> call followed by \<open>parse_response\<close>: a status of 400 or more ends the run
  through \<open>fail_json\<close> with the provider's text.
\<close>

definition fetch_url :: "env \<Rightarrow> request \<Rightarrow> reply io" where
  "fetch_url e req tr = (Done (respond e tr req), tr @ [Fetch req])"

definition parse_response :: "reply \<Rightarrow> reply io" where
  "parse_response r = (case r of HttpError msg \<Rightarrow> stop (Fail_json msg) | _ \<Rightarrow> ret r)"

text \<open>
  The path segments \<open>/key/value\<close> that \<open>query\<close> appends for every value that is not \<open>None\<close>;
  concatenation raises on a value that is not a string.
\<close>

fun url_segments :: "dict \<Rightarrow> pyerr + string" where
  "url_segments [] = Inr []"
| "url_segments ((k, v) # d) =
     (case v of
        JNone \<Rightarrow> url_segments d
      | JStr s \<Rightarrow> (case url_segments d of Inl x \<Rightarrow> Inl x | Inr r \<Rightarrow> Inr (''/'' @ k @ ''/'' @ s @ r))
      | _ \<Rightarrow> Inl TypeError)"

definition query :: "env \<Rightarrow> string \<Rightarrow> string \<Rightarrow> dict \<Rightarrow> reply io" where
  "query e module func data =
     bind (lift (url_segments data)) (\<lambda>segs.
     bind (fetch_url e (Request ''GET'' (GLESYS_API_ENDPOINT @ module @ ''/'' @ func @ segs) None))
       parse_response)"

definition post :: "env \<Rightarrow> string \<Rightarrow> string \<Rightarrow> dict \<Rightarrow> reply io" where
  "post e module func data =
     bind (fetch_url e (Request ''POST'' (GLESYS_API_ENDPOINT @ module @ ''/'' @ func)
             (if data = [] then None else Some data)))
       parse_response"

text \<open>\<open>data["response"]["servers"]\<close> and \<open>data["response"]["server"]\<close> on a parsed body.\<close>

fun response_servers :: "reply \<Rightarrow> pyerr + dict list" where
  "response_servers (Reply_servers ds) = Inr ds"
| "response_servers (Reply_server d) = Inl KeyError"
| "response_servers Reply_empty = Inl KeyError"
| "response_servers (HttpError msg) = Inl KeyError"

fun response_server :: "reply \<Rightarrow> pyerr + dict" where
  "response_server (Reply_server d) = Inr d"
| "response_server (Reply_servers ds) = Inl KeyError"
| "response_server Reply_empty = Inl KeyError"
| "response_server (HttpError msg) = Inl KeyError"

subsection \<open>\<open>AnsibleGlesysServer\<close>\<close>

text \<open>The object is its \<open>properties\<close> dictionary; \<open>to_json\<close> returns it.\<close>

definition serverid :: "dict \<Rightarrow> pyerr + json" where
  "serverid props = getitem props ''serverid''"

definition hostname :: "dict \<Rightarrow> pyerr + json" where
  "hostname props = getitem props ''hostname''"

definition AnsibleGlesysServer :: "dict \<Rightarrow> dict" where
  "AnsibleGlesysServer j = dict_update [] j"

subsection \<open>\<open>GlesysApi\<close>: operations\<close>

definition list_server :: "env \<Rightarrow> dict list io" where
  "list_server e =
     bind (query e ''server'' ''list'' []) (\<lambda>data.
     bind (lift (response_servers data)) (\<lambda>ds.
     ret (map AnsibleGlesysServer ds)))"

text \<open>One \<open>for server in servers: if key(server) == wanted: return server\<close> loop.\<close>

fun first_match :: "(dict \<Rightarrow> pyerr + json) \<Rightarrow> json \<Rightarrow> dict list \<Rightarrow> pyerr + dict option" where
  "first_match key wanted [] = Inr None"
| "first_match key wanted (s # ss) =
     (case key s of
        Inl x \<Rightarrow> Inl x
      | Inr v \<Rightarrow> if v = wanted then Inr (Some s) else first_match key wanted ss)"

definition find :: "env \<Rightarrow> json \<Rightarrow> json \<Rightarrow> dict option io" where
  "find e sid host =
     (if \<not> truthy sid \<and> \<not> truthy host then ret None
      else bind (list_server e) (\<lambda>servers.
           bind (lift (first_match serverid sid servers)) (\<lambda>by_id.
           case by_id of
             Some s \<Rightarrow> ret (Some s)
           | None \<Rightarrow> lift (first_match hostname host servers))))"

definition get_server_status :: "env \<Rightarrow> json \<Rightarrow> json io" where
  "get_server_status e sid =
     bind (query e ''server'' ''status'' [(''serverid'', sid)]) (\<lambda>data.
     bind (lift (response_server data)) (\<lambda>s.
     lift (getitem s ''state'')))"

definition get_server_details :: "env \<Rightarrow> json \<Rightarrow> reply io" where
  "get_server_details e sid =
     query e ''server'' ''details'' [(''serverid'', sid), (''includestate'', JStr ''true'')]"

text \<open>\<open>AnsibleGlesysServer.update\<close>: merge the details into the properties.\<close>

definition server_update :: "env \<Rightarrow> dict \<Rightarrow> dict io" where
  "server_update e props =
     bind (lift (serverid props)) (\<lambda>sid.
     bind (get_server_details e sid) (\<lambda>server_details.
     bind (lift (response_server server_details)) (\<lambda>d.
     ret (dict_update props d))))"

definition get_server :: "env \<Rightarrow> json \<Rightarrow> json \<Rightarrow> dict option io" where
  "get_server e sid host =
     bind (find e sid host) (\<lambda>s.
     case s of
       None \<Rightarrow> ret None
     | Some props \<Rightarrow> bind (server_update e props) (\<lambda>props'. ret (Some props')))"

text \<open>
  \<open>create_server\<close>, with its arguments in the order of the signature. \<open>len(password)\<close> raises
  on \<open>None\<close>.
\<close>

definition api_create_server ::
  "env \<Rightarrow> json \<Rightarrow> json \<Rightarrow> json \<Rightarrow> json \<Rightarrow> json \<Rightarrow> json \<Rightarrow> json \<Rightarrow> json \<Rightarrow> json \<Rightarrow> json \<Rightarrow> json \<Rightarrow> json
     \<Rightarrow> dict io" where
  "api_create_server e host datacenter platform template cpus memory disk password bandwidth
       description users ssh_pub_key =
     bind (lift (py_len password)) (\<lambda>n.
     bind (if n < 1 then bind (generate_temp_password e 64) (\<lambda>s. ret (JStr s)) else ret password)
       (\<lambda>password.
     bind (post e ''server'' ''create''
             [(''hostname'', host),
              (''platform'', platform),
              (''datacenter'', datacenter),
              (''templatename'', template),
              (''disksize'', disk),
              (''memorysize'', memory),
              (''cpucores'', cpus),
              (''bandwidth'', bandwidth),
              (''rootpassword'', password),
              (''description'', description),
              (''users'', users),
              (''ssh_pub_key'', ssh_pub_key)]) (\<lambda>serverjson.
     lift (response_server serverjson))))"

definition remove_server :: "env \<Rightarrow> json \<Rightarrow> reply io" where
  "remove_server e sid =
     post e ''server'' ''destroy'' [(''serverid'', sid), (''keepip'', JStr ''false'')]"

text \<open>
  The two dictionary comprehensions of \<open>update_server\<close>: keep the items with a true value,
  then those whose value differs from the server's property of the same key.
\<close>

fun differing :: "dict \<Rightarrow> dict \<Rightarrow> pyerr + dict" where
  "differing props [] = Inr []"
| "differing props ((k, v) # ps) =
     (case getitem props k of
        Inl x \<Rightarrow> Inl x
      | Inr c \<Rightarrow> (case differing props ps of
                   Inl x \<Rightarrow> Inl x
                 | Inr r \<Rightarrow> Inr (if v \<noteq> c then (k, v) # r else r)))"

definition update_params :: "dict \<Rightarrow> dict \<Rightarrow> pyerr + dict" where
  "update_params props ps = differing props (filter (\<lambda>kv. truthy (snd kv)) ps)"

definition api_update_server :: "env \<Rightarrow> dict \<Rightarrow> dict \<Rightarrow> (bool \<times> reply option) io" where
  "api_update_server e server ps =
     bind (lift (update_params server ps)) (\<lambda>ps.
     if length ps = 0 then ret (False, None)
     else bind (lift (serverid server)) (\<lambda>sid.
          bind (post e ''server'' ''edit'' (setitem ps ''serverid'' sid)) (\<lambda>serverjson.
          ret (True, Some serverjson))))"

subsection \<open>\<open>GlesysRunner\<close>\<close>

definition exit_json :: "bool \<Rightarrow> string option \<Rightarrow> dict option \<Rightarrow> 'a io" where
  "exit_json changed msg server = stop (Exit_json changed msg server)"

definition create_server :: "env \<Rightarrow> dict io" where
  "create_server e =
     (if check_mode e then exit_json True None None
      else let p = module_params e in
        bind (api_create_server e
                (jstr (p_hostname p)) (jstr (p_datacenter p)) (jstr (p_platform p))
                (jstr (p_template p)) (jint (p_cpus p)) (jint (p_memory p)) (jint (p_disk p))
                (jstr (p_password p)) (jint (p_bandwidth p)) (jstr (p_description p))
                (p_users p) (jstr (p_ssh_pub_key p))) (\<lambda>server_json.
        ret (AnsibleGlesysServer server_json)))"

text \<open>
  The two wait loops never give up by themselves. Each takes the number of loop tests it may
  make; a loop that would make one more ends in \<open>OutOfFuel\<close>.
\<close>

fun wait_for_server_state :: "nat \<Rightarrow> env \<Rightarrow> json \<Rightarrow> string \<Rightarrow> unit io" where
  "wait_for_server_state 0 e sid target_state = (\<lambda>tr. (OutOfFuel, tr))"
| "wait_for_server_state (Suc n) e sid target_state =
     bind (get_server_status e sid) (\<lambda>active_state.
     bind (lift (as_str active_state)) (\<lambda>s.
     bind (py_print (''state: '' @ s)) (\<lambda>_.
     if target_state = ''present'' then ret ()
     else if JStr target_state = active_state then ret ()
     else bind (sleep 1) (\<lambda>_. wait_for_server_state n e sid target_state))))"

fun lock_loop :: "nat \<Rightarrow> env \<Rightarrow> json \<Rightarrow> json \<Rightarrow> unit io" where
  "lock_loop 0 e sid active_state = (\<lambda>tr. (OutOfFuel, tr))"
| "lock_loop (Suc n) e sid active_state =
     (if active_state = JStr ''locked''
      then bind (sleep 1) (\<lambda>_. bind (get_server_status e sid) (lock_loop n e sid))
      else ret ())"

definition wait_for_server_lock :: "nat \<Rightarrow> env \<Rightarrow> json \<Rightarrow> unit io" where
  "wait_for_server_lock fuel e sid = bind (get_server_status e sid) (lock_loop fuel e sid)"

text \<open>
  The loop of \<open>run\<close> over \<open>iplist\<close>; the second argument is the current value of
  \<open>properties["ipaddress"]\<close>.
\<close>

fun ipaddress_loop :: "json list \<Rightarrow> json \<Rightarrow> pyerr + json" where
  "ipaddress_loop [] acc = Inr acc"
| "ipaddress_loop (i # rest) acc =
     (case subscript i ''version'' of
        Inl x \<Rightarrow> Inl x
      | Inr v \<Rightarrow>
          if v = JInt 4 then subscript i ''ipaddress''
          else if v = JInt 6 then
            (case subscript i ''ipaddress'' of Inl x \<Rightarrow> Inl x | Inr a \<Rightarrow> ipaddress_loop rest a)
          else ipaddress_loop rest acc)"

definition set_ipaddress :: "dict \<Rightarrow> pyerr + dict" where
  "set_ipaddress props =
     (let props = setitem props ''ipaddress'' (JStr []) in
      case getitem props ''iplist'' of
        Inl x \<Rightarrow> Inl x
      | Inr l \<Rightarrow> (case iterate l of
                   Inl x \<Rightarrow> Inl x
                 | Inr entries \<Rightarrow> (case ipaddress_loop entries (JStr []) of
                                     Inl x \<Rightarrow> Inl x
                                   | Inr a \<Rightarrow> Inr (setitem props ''ipaddress'' a))))"

text \<open>\<open>a or b\<close> and \<open>a and b\<close> on conditions that may raise: \<open>b\<close> is only evaluated if needed.\<close>

definition py_or :: "pyerr + bool \<Rightarrow> pyerr + bool \<Rightarrow> pyerr + bool" where
  "py_or a b = (case a of Inl x \<Rightarrow> Inl x | Inr t \<Rightarrow> if t then Inr True else b)"

definition py_and :: "pyerr + bool \<Rightarrow> pyerr + bool \<Rightarrow> pyerr + bool" where
  "py_and a b = (case a of Inl x \<Rightarrow> Inl x | Inr t \<Rightarrow> if t then b else Inr False)"

definition differs :: "pyerr + json \<Rightarrow> json \<Rightarrow> pyerr + bool" where
  "differs a b = (case a of Inl x \<Rightarrow> Inl x | Inr v \<Rightarrow> Inr (v \<noteq> b))"

definition editbandwidth :: "dict \<Rightarrow> pyerr + bool" where
  "editbandwidth sd =
     (case getitem sd ''supportedfeatures'' of
        Inl x \<Rightarrow> Inl x
      | Inr f \<Rightarrow> (case subscript f ''editbandwidth'' of
                   Inl x \<Rightarrow> Inl x
                 | Inr v \<Rightarrow> Inr (v = JStr ''yes'')))"

text \<open>The condition of \<open>GlesysRunner.update_server\<close>.\<close>

definition needs_update :: "params \<Rightarrow> dict \<Rightarrow> pyerr + bool" where
  "needs_update p serverdetails =
     py_or (differs (getitem serverdetails ''cpucores'') (jint (p_cpus p)))
    (py_or (differs (getitem serverdetails ''disksize'') (jint (p_disk p)))
    (py_or (differs (getitem serverdetails ''memorysize'') (jint (p_memory p)))
    (py_or (differs (getitem serverdetails ''hostname'') (jstr (p_hostname p)))
           (py_and (editbandwidth serverdetails)
                   (differs (getitem serverdetails ''bandwidth'') (jint (p_bandwidth p)))))))"

text \<open>The dictionary it passes to \<open>GlesysApi.update_server\<close>.\<close>

definition desired_fields :: "params \<Rightarrow> dict" where
  "desired_fields p =
     [(''cpucores'', jint (p_cpus p)),
      (''disksize'', jint (p_disk p)),
      (''memorysize'', jint (p_memory p)),
      (''bandwidth'', jint (p_bandwidth p)),
      (''hostname'', jstr (p_hostname p))]"

definition update_server :: "nat \<Rightarrow> env \<Rightarrow> dict \<Rightarrow> bool \<Rightarrow> (bool \<times> dict) io" where
  "update_server fuel e server changed =
     (let p = module_params e in
      bind (lift (serverid server)) (\<lambda>sid.
      bind (get_server_details e sid) (\<lambda>data.
      bind (lift (response_server data)) (\<lambda>serverdetails.
      bind (lift (needs_update p serverdetails)) (\<lambda>c.
      if c then
        bind (api_update_server e server (desired_fields p)) (\<lambda>r.
        bind (case snd r of
                None \<Rightarrow> ret server
              | Some serverjson \<Rightarrow>
                  bind (lift (response_server serverjson)) (\<lambda>d. ret (AnsibleGlesysServer d)))
          (\<lambda>server.
        bind (server_update e server) (\<lambda>server.
        bind (if p_wait p
              then bind (lift (serverid server)) (wait_for_server_lock fuel e)
              else ret ()) (\<lambda>_.
        ret (True, server)))))
      else ret (changed, server))))))"

text \<open>
  \<open>run\<close>. The local \<open>changed\<close> is only bound inside the \<open>state == "present"\<close> block, and
  \<open>server\<close> may still be \<open>None\<close> after it: both are options here. \<open>server.serverid()\<close> is
  evaluated once where the source evaluates it again on the same object.
\<close>

definition run_absent :: "nat \<Rightarrow> env \<Rightarrow> dict option \<Rightarrow> unit io" where
  "run_absent fuel e server =
     (case server of
        None \<Rightarrow> exit_json False (Some ''Server already absent'') None
      | Some s \<Rightarrow>
          bind (lift (serverid s)) (\<lambda>sid.
          bind (wait_for_server_lock fuel e sid) (\<lambda>_.
          bind (remove_server e sid) (\<lambda>_.
          bind (lift (as_str sid)) (\<lambda>n.
          exit_json True (Some (''Server '' @ n @ '' deleted'')) None)))))"

definition run_present :: "nat \<Rightarrow> env \<Rightarrow> dict option \<Rightarrow> (bool \<times> dict) io" where
  "run_present fuel e server =
     bind (case server of
             None \<Rightarrow>
               bind (create_server e) (\<lambda>server.
               bind (lift (serverid server)) (\<lambda>sid.
               bind (wait_for_server_state fuel e sid ''running'') (\<lambda>_.
               bind (sleep 1) (\<lambda>_.
               ret (True, server)))))
           | Some s \<Rightarrow> update_server fuel e s False) (\<lambda>r.
     bind (lift (serverid (snd r))) (\<lambda>sid.
     bind (wait_for_server_lock fuel e sid) (\<lambda>_.
     bind (lift (set_ipaddress (snd r))) (\<lambda>server.
     ret (fst r, server)))))"

definition run :: "nat \<Rightarrow> env \<Rightarrow> unit io" where
  "run fuel e =
     (let p = module_params e; state = p_state p in
      bind (get_server e (jstr (p_serverid p)) (jstr (p_hostname p))) (\<lambda>server.
      bind (if state = ''absent'' then run_absent fuel e server else ret ()) (\<lambda>_.
      bind (if state = ''present''
            then bind (run_present fuel e server) (\<lambda>r. ret (Some (fst r), Some (snd r)))
            else ret (None, server)) (\<lambda>r.
      bind (if p_wait p
            then (let target_state = (if state = ''rebooted'' then ''running'' else state) in
                  case snd r of
                    None \<Rightarrow> stop (Raised AttributeError)
                  | Some s \<Rightarrow> bind (lift (serverid s)) (\<lambda>sid.
                              wait_for_server_state fuel e sid target_state))
            else ret ()) (\<lambda>_.
      case snd r of
        None \<Rightarrow> stop (Raised AttributeError)
      | Some s \<Rightarrow>
          bind (server_update e s) (\<lambda>server.
          case fst r of
            None \<Rightarrow> stop (Raised UnboundLocalError)
          | Some changed \<Rightarrow> exit_json changed None (Some server)))))))"

subsection \<open>\<open>main\<close>: the argument specification\<close>

text \<open>
  What the task gives: every parameter is optional. \<open>main\<close> hands the task to
  \<open>AnsibleModule\<close>, which gives a parameter that the task leaves out the default of the
  argument specification: \<open>100\<close> for \<open>bandwidth\<close>, the empty string for \<open>password\<close>, names
  for \<open>datacenter\<close>, \<open>template\<close> and \<open>platform\<close>, \<open>present\<close> for \<open>state\<close>, true for \<open>wait\<close>, and
  \<open>None\<close> for all others. (\<open>wait_timeout\<close> is declared too, and read nowhere.)
\<close>

record task =
  t_serverid :: "string option"
  t_hostname :: "string option"
  t_cpus :: "int option"
  t_memory :: "int option"
  t_disk :: "int option"
  t_bandwidth :: "int option"
  t_password :: "string option"
  t_ssh_pub_key :: "string option"
  t_datacenter :: "string option"
  t_template :: "string option"
  t_platform :: "string option"
  t_state :: "string option"
  t_users :: "json option"
  t_description :: "string option"
  t_wait :: "bool option"

definition or_default :: "'a \<Rightarrow> 'a option \<Rightarrow> 'a" where
  "or_default d x = (case x of None \<Rightarrow> d | Some v \<Rightarrow> v)"

definition argument_spec :: "task \<Rightarrow> params" where
  "argument_spec t =
     \<lparr>p_serverid = t_serverid t,
      p_hostname = t_hostname t,
      p_cpus = t_cpus t,
      p_memory = t_memory t,
      p_disk = t_disk t,
      p_bandwidth = Some (or_default 100 (t_bandwidth t)),
      p_password = Some (or_default [] (t_password t)),
      p_ssh_pub_key = t_ssh_pub_key t,
      p_datacenter = Some (or_default ''Falkenberg'' (t_datacenter t)),
      p_template = Some (or_default ''Debian 9 64-bit'' (t_template t)),
      p_platform = Some (or_default ''VMware'' (t_platform t)),
      p_state = or_default ''present'' (t_state t),
      p_users = or_default JNone (t_users t),
      p_description = t_description t,
      p_wait = or_default True (t_wait t)\<rparr>"

subsection \<open>Observations on a run\<close>

text \<open>The value of \<open>properties["ipaddress"]\<close> after the address block of \<open>run\<close>.\<close>

definition derived_ipaddress :: "dict \<Rightarrow> pyerr + json" where
  "derived_ipaddress props =
     (case set_ipaddress props of Inl x \<Rightarrow> Inl x | Inr props' \<Rightarrow> getitem props' ''ipaddress'')"

definition has_version :: "int \<Rightarrow> json \<Rightarrow> bool" where
  "has_version n i = (subscript i ''version'' = Inr (JInt n))"

definition well_formed_ip :: "json \<Rightarrow> bool" where
  "well_formed_ip i = (\<not> isl (subscript i ''version'') \<and> \<not> isl (subscript i ''ipaddress''))"

fun is_fetch :: "event \<Rightarrow> bool" where
  "is_fetch (Fetch r) = True"
| "is_fetch (Sleep n) = False"
| "is_fetch (Urandom n) = False"
| "is_fetch (Print s) = False"

fun is_post :: "event \<Rightarrow> bool" where
  "is_post (Fetch (Request m url body)) = (m = ''POST'')"
| "is_post (Sleep n) = False"
| "is_post (Urandom n) = False"
| "is_post (Print s) = False"

fun failed :: "'a res \<Rightarrow> bool" where
  "failed (Stop (Exit_json changed msg server)) = False"
| "failed (Stop (Fail_json msg)) = True"
| "failed (Stop (Raised x)) = True"
| "failed (Done x) = False"
| "failed OutOfFuel = False"

text \<open>
  The field-set as section 4.2 of the specification words it: the fields whose desired value
  is set, where only \<open>None\<close> counts as not set, and differs from the snapshot's value.
\<close>

definition spec_field_set :: "dict \<Rightarrow> dict \<Rightarrow> dict" where
  "spec_field_set snapshot desired =
     filter (\<lambda>kv. snd kv \<noteq> JNone \<and> getitem snapshot (fst kv) \<noteq> Inr (snd kv)) desired"

text \<open>The requests of the module, as they appear in a trace.\<close>

definition status_request :: "string \<Rightarrow> request" where
  "status_request sid =
     Request ''GET'' (GLESYS_API_ENDPOINT @ ''server/status/serverid/'' @ sid) None"

definition create_request :: "dict \<Rightarrow> request" where
  "create_request body = Request ''POST'' (GLESYS_API_ENDPOINT @ ''server/create'') (Some body)"

definition details_request :: "string \<Rightarrow> request" where
  "details_request sid =
     Request ''GET'' (GLESYS_API_ENDPOINT @ ''server/details/serverid/'' @ sid @ ''/includestate/true'')
       None"

definition list_request :: request where
  "list_request = Request ''GET'' (GLESYS_API_ENDPOINT @ ''server/list'') None"

definition edit_request :: "dict \<Rightarrow> request" where
  "edit_request body = Request ''POST'' (GLESYS_API_ENDPOINT @ ''server/edit'') (Some body)"

definition destroy_request :: "string \<Rightarrow> request" where
  "destroy_request sid =
     Request ''POST'' (GLESYS_API_ENDPOINT @ ''server/destroy'')
       (Some [(''serverid'', JStr sid), (''keepip'', JStr ''false'')])"

text \<open>The five fields of an update as the task gives them, before any default.\<close>

definition task_fields :: "task \<Rightarrow> dict" where
  "task_fields t =
     [(''cpucores'', jint (t_cpus t)),
      (''disksize'', jint (t_disk t)),
      (''memorysize'', jint (t_memory t)),
      (''bandwidth'', jint (t_bandwidth t)),
      (''hostname'', jstr (t_hostname t))]"

text \<open>
  The state with which the provider would answer a status poll made after a given trace,
  if it answers with a server that has one.
\<close>

definition status_answer :: "env \<Rightarrow> event list \<Rightarrow> string \<Rightarrow> json option" where
  "status_answer e tr sid =
     (case respond e tr (status_request sid) of
        Reply_server d \<Rightarrow> (case getitem d ''state'' of Inl x \<Rightarrow> None | Inr v \<Rightarrow> Some v)
      | HttpError msg \<Rightarrow> None
      | Reply_servers ds \<Rightarrow> None
      | Reply_empty \<Rightarrow> None)"

text \<open>The events of \<open>k\<close> rounds of the lock wait: a status poll, then a sleep of 1.\<close>

fun lock_polls :: "string \<Rightarrow> nat \<Rightarrow> event list" where
  "lock_polls sid 0 = []"
| "lock_polls sid (Suc k) = Fetch (status_request sid) # Sleep 1 # lock_polls sid k"

fun is_sleep :: "event \<Rightarrow> bool" where
  "is_sleep (Sleep n) = True"
| "is_sleep (Fetch r) = False"
| "is_sleep (Urandom n) = False"
| "is_sleep (Print s) = False"

subsection \<open>Concrete scenarios\<close>

text \<open>A server as the provider reports it, with an IPv6 address listed before an IPv4 one.\<close>

definition demo_server :: dict where
  "demo_server =
     [(''serverid'', JStr ''wps1''),
      (''hostname'', JStr ''host01''),
      (''cpucores'', JInt 1),
      (''memorysize'', JInt 2048),
      (''disksize'', JInt 20),
      (''bandwidth'', JInt 100),
      (''state'', JStr ''running''),
      (''supportedfeatures'', JDict [(''editbandwidth'', JStr ''no'')]),
      (''iplist'', JList [JDict [(''version'', JInt 6), (''ipaddress'', JStr ''::1'')],
                          JDict [(''version'', JInt 4), (''ipaddress'', JStr ''1.2.3.4'')]])]"

text \<open>A provider that holds one server and never changes it, whatever it is asked.\<close>

definition steady_provider :: "dict \<Rightarrow> event list \<Rightarrow> request \<Rightarrow> reply" where
  "steady_provider s tr req =
     (case req of Request m url body \<Rightarrow>
        if url = GLESYS_API_ENDPOINT @ ''server/list'' then Reply_servers [s] else Reply_server s)"

text \<open>A provider that holds no server until one is created, and then this one.\<close>

definition fresh_provider :: "dict \<Rightarrow> event list \<Rightarrow> request \<Rightarrow> reply" where
  "fresh_provider s tr req =
     (case req of Request m url body \<Rightarrow>
        if url = GLESYS_API_ENDPOINT @ ''server/list''
        then Reply_servers (if list_ex is_post tr then [s] else [])
        else Reply_server s)"

text \<open>
  A provider whose \<open>k\<close>-th answer reports the \<open>k\<close>-th state of a list, and that answers with
  an empty body once the list is used up.
\<close>

definition status_script :: "string list \<Rightarrow> event list \<Rightarrow> request \<Rightarrow> reply" where
  "status_script states tr req =
     (let k = length (filter is_fetch tr) in
      if k < length states then Reply_server [(''state'', JStr (states ! k))] else Reply_empty)"

text \<open>
  The task \<open>update disk\<close> of the module's examples: the server is named by its id, the
  disk size is given, every other parameter keeps its default.
\<close>

definition demo_params :: params where
  "demo_params =
     \<lparr>p_serverid = Some ''wps1'', p_hostname = None, p_cpus = None, p_memory = None,
      p_disk = Some 20, p_bandwidth = Some 100, p_password = Some [], p_ssh_pub_key = None,
      p_datacenter = Some ''Falkenberg'', p_template = Some ''Debian 9 64-bit'',
      p_platform = Some ''VMware'', p_state = ''present'', p_users = JNone,
      p_description = None, p_wait = True\<rparr>"

text \<open>A task that gives every sizing parameter and the hostname, all as the server has them.\<close>

definition full_params :: params where
  "full_params =
     demo_params\<lparr>p_hostname := Some ''host01'', p_cpus := Some 1, p_memory := Some 2048\<rparr>"

text \<open>A task that names a new server by its hostname and gives it a password.\<close>

definition new_params :: params where
  "new_params = full_params\<lparr>p_serverid := None, p_password := Some ''secret''\<rparr>"

definition demo_env :: env where
  "demo_env =
     \<lparr>module_params = demo_params, check_mode = False, respond = steady_provider demo_server,
      entropy = (\<lambda>tr i. of_nat i)\<rparr>"

text \<open>The same server with a bandwidth of 200 that the provider lets the module edit.\<close>

definition wide_server :: dict where
  "wide_server =
     setitem (setitem demo_server ''bandwidth'' (JInt 200))
       ''supportedfeatures'' (JDict [(''editbandwidth'', JStr ''yes'')])"

text \<open>
  A provider that holds one server and reports it \<open>locked\<close> until the module has slept \<open>k\<close>
  times.
\<close>

definition busy_provider :: "nat \<Rightarrow> dict \<Rightarrow> event list \<Rightarrow> request \<Rightarrow> reply" where
  "busy_provider k s tr req =
     (case req of Request m url body \<Rightarrow>
        if url = GLESYS_API_ENDPOINT @ ''server/list'' then Reply_servers [s]
        else if length (filter is_sleep tr) < k
             then Reply_server (setitem s ''state'' (JStr ''locked''))
             else Reply_server s)"

text \<open>Tasks that name the server by its id and leave the bandwidth out.\<close>

definition no_task :: task where
  "no_task =
     \<lparr>t_serverid = Some ''wps1'', t_hostname = None, t_cpus = None, t_memory = None,
      t_disk = None, t_bandwidth = None, t_password = None, t_ssh_pub_key = None,
      t_datacenter = None, t_template = None, t_platform = None, t_state = None,
      t_users = None, t_description = None, t_wait = None\<rparr>"

definition disk_task :: task where
  "disk_task = no_task\<lparr>t_disk := Some 40\<rparr>"

definition zero_task :: task where
  "zero_task =
     no_task\<lparr>t_hostname := Some ''host01'', t_cpus := Some 0, t_memory := Some 2048,
             t_disk := Some 20\<rparr>"

definition mixed_task :: task where
  "mixed_task =
     no_task\<lparr>t_hostname := Some ''host01'', t_cpus := Some 2, t_memory := Some 0,
             t_disk := Some 20\<rparr>"

section \<open>Properties\<close>

subsection \<open>Password generation\<close>

lemma chars_length: "length chars = 32"
  by (simp add: chars_def)

lemma chars_nth_mem: "chars ! (k mod length chars) \<in> set chars"
  by (rule nth_mem) (simp add: chars_length)

text \<open>
  Claim C7, as amended. \<open>generate_temp_password\<close> raises \<open>ValueError\<close> for every length
  below 8, before any request and before any random byte is read. For every length of at
  least 8 it returns a string of exactly that length whose characters all belong to a fixed
  alphabet, which has 32 distinct characters: the uppercase letters and the digits without
  \<open>I\<close>, \<open>O\<close>, \<open>0\<close> and \<open>1\<close>.
\<close>

theorem generate_temp_password_alphabet:
  "(n < 8 \<longrightarrow> generate_temp_password e n tr = (Stop (Raised ValueError), tr)) \<and>
   (8 \<le> n \<longrightarrow> (\<exists>s. generate_temp_password e n tr = (Done s, tr @ [Urandom n]) \<and>
                    int (length s) = n \<and> set s \<subseteq> set chars)) \<and>
   length chars = 32 \<and> distinct chars \<and>
   set chars = set ''ABCDEFGHIJKLMNOPQRSTUVWXYZ0123456789'' - set ''IO01''"
proof (intro conjI impI)
  assume "n < 8"
  then show "generate_temp_password e n tr = (Stop (Raised ValueError), tr)"
    by (simp add: generate_temp_password_def stop_def)
next
  assume n: "8 \<le> n"
  let ?s = "map (\<lambda>c. chars ! (unat c mod length chars)) (map (entropy e tr) [0..<nat n])"
  have "generate_temp_password e n tr = (Done ?s, tr @ [Urandom n])"
    using n by (simp add: generate_temp_password_def bind_def urandom_def ret_def)
  moreover have "int (length ?s) = n" using n by simp
  moreover have "set ?s \<subseteq> set chars" using chars_nth_mem by auto
  ultimately show "\<exists>s. generate_temp_password e n tr = (Done s, tr @ [Urandom n]) \<and>
                    int (length s) = n \<and> set s \<subseteq> set chars"
    by blast
next
  show "length chars = 32" by (rule chars_length)
next
  show "distinct chars" by (simp add: chars_def)
next
  show "set chars = set ''ABCDEFGHIJKLMNOPQRSTUVWXYZ0123456789'' - set ''IO01''"
    by (auto simp add: chars_def)
qed

theorem generate_temp_password_alphabet_witness:
  "generate_temp_password demo_env 7 [] = (Stop (Raised ValueError), []) \<and>
   (\<exists>s. generate_temp_password demo_env 8 [] = (Done s, [Urandom 8]) \<and>
        int (length s) = 8 \<and> set s \<subseteq> set chars)"
proof
  have "(7::int) < 8" by simp
  then show "generate_temp_password demo_env 7 [] = (Stop (Raised ValueError), [])"
    using generate_temp_password_alphabet [of 7 demo_env "[]"] by blast
next
  have "(8::int) \<le> 8" by simp
  then show "\<exists>s. generate_temp_password demo_env 8 [] = (Done s, [Urandom 8]) \<and>
        int (length s) = 8 \<and> set s \<subseteq> set chars"
    using generate_temp_password_alphabet [of 8 demo_env "[]"] by (metis append_Nil)
qed

text \<open>The alphabet does not have the 33 characters that claim C7 gives it.\<close>

theorem alphabet_has_33_characters_counterexample: "length chars \<noteq> 33"
  by (simp add: chars_def)

subsection \<open>The derived address\<close>

lemma getitem_setitem_same: "getitem (setitem d k v) k = Inr v"
  by (induction d k v rule: setitem.induct) (auto simp: getitem_def)

lemma getitem_setitem_other: "k' \<noteq> k \<Longrightarrow> getitem (setitem d k v) k' = getitem d k'"
  by (induction d k v rule: setitem.induct) (auto simp: getitem_def)

lemma ipaddress_loop_choice:
  assumes "\<forall>i \<in> set entries. well_formed_ip i"
  shows "ipaddress_loop entries acc =
     (case filter (has_version 4) entries of
        i # _ \<Rightarrow> subscript i ''ipaddress''
      | [] \<Rightarrow> (case rev (filter (has_version 6) entries) of
                  i # _ \<Rightarrow> subscript i ''ipaddress''
                | [] \<Rightarrow> Inr acc))"
  using assms
proof (induction entries arbitrary: acc)
  case Nil
  then show ?case by simp
next
  case (Cons i rest)
  have wf: "well_formed_ip i" and rest: "\<forall>i \<in> set rest. well_formed_ip i"
    using Cons.prems by simp_all
  from wf obtain v where v: "subscript i ''version'' = Inr v"
    by (cases "subscript i ''version''") (simp_all add: well_formed_ip_def)
  from wf obtain a where a: "subscript i ''ipaddress'' = Inr a"
    by (cases "subscript i ''ipaddress''") (simp_all add: well_formed_ip_def)
  show ?case
  proof (cases "v = JInt 4")
    case True
    then show ?thesis using v by (simp add: has_version_def)
  next
    case n4: False
    then have f4: "filter (has_version 4) (i # rest) = filter (has_version 4) rest"
      using v by (simp add: has_version_def)
    show ?thesis
    proof (cases "v = JInt 6")
      case True
      then have f6: "rev (filter (has_version 6) (i # rest)) = rev (filter (has_version 6) rest) @ [i]"
        using v by (simp add: has_version_def)
      have step: "ipaddress_loop (i # rest) acc = ipaddress_loop rest a"
        using v a n4 True by simp
      show ?thesis
        unfolding step f4 f6 Cons.IH [OF rest, of a]
        by (cases "filter (has_version 4) rest"; cases "rev (filter (has_version 6) rest)")
           (simp_all add: a)
    next
      case False
      then have f6: "filter (has_version 6) (i # rest) = filter (has_version 6) rest"
        using v by (simp add: has_version_def)
      have step: "ipaddress_loop (i # rest) acc = ipaddress_loop rest acc"
        using v n4 False by simp
      show ?thesis
        unfolding step f4 f6 Cons.IH [OF rest, of acc] by (rule refl)
    qed
  qed
qed

text \<open>
  Claim C3, as amended. For every address list whose entries carry a \<open>version\<close> and an
  \<open>ipaddress\<close>, the derived \<open>ipaddress\<close> field is the address of the first entry of
  version 4 if there is one, otherwise the address of the last entry of version 6 if there
  is one, otherwise the empty string.
\<close>

theorem derived_ipaddress_choice:
  assumes "getitem props ''iplist'' = Inr (JList entries)"
      and "\<forall>i \<in> set entries. well_formed_ip i"
  shows "derived_ipaddress props =
     (case filter (has_version 4) entries of
        i # _ \<Rightarrow> subscript i ''ipaddress''
      | [] \<Rightarrow> (case rev (filter (has_version 6) entries) of
                  i # _ \<Rightarrow> subscript i ''ipaddress''
                | [] \<Rightarrow> Inr (JStr [])))"
proof -
  have l: "getitem (setitem props ''ipaddress'' (JStr [])) ''iplist'' = Inr (JList entries)"
    using assms(1) by (simp add: getitem_setitem_other)
  show ?thesis
    unfolding derived_ipaddress_def set_ipaddress_def Let_def l
    by (simp add: ipaddress_loop_choice [OF assms(2), symmetric] getitem_setitem_same
             split: sum.splits)
qed

theorem derived_ipaddress_choice_witness:
  "getitem demo_server ''iplist'' =
     Inr (JList [JDict [(''version'', JInt 6), (''ipaddress'', JStr ''::1'')],
                 JDict [(''version'', JInt 4), (''ipaddress'', JStr ''1.2.3.4'')]]) \<and>
   derived_ipaddress demo_server = Inr (JStr ''1.2.3.4'')"
proof -
  let ?entries = "[JDict [(''version'', JInt 6), (''ipaddress'', JStr ''::1'')],
                   JDict [(''version'', JInt 4), (''ipaddress'', JStr ''1.2.3.4'')]]"
  have l: "getitem demo_server ''iplist'' = Inr (JList ?entries)"
    by (simp add: demo_server_def getitem_def)
  have w: "\<forall>i \<in> set ?entries. well_formed_ip i"
    by (simp add: well_formed_ip_def getitem_def)
  show ?thesis
    using l derived_ipaddress_choice [OF l w] by (simp add: has_version_def getitem_def)
qed

text \<open>
  With two IPv6 addresses and no IPv4 address the field holds the last IPv6 address, not
  the first one that claim C3 names.
\<close>

theorem first_ipv6_counterexample:
  "derived_ipaddress
     [(''iplist'', JList [JDict [(''version'', JInt 6), (''ipaddress'', JStr ''::1'')],
                          JDict [(''version'', JInt 6), (''ipaddress'', JStr ''::2'')]])]
   = Inr (JStr ''::2'') \<and>
   derived_ipaddress
     [(''iplist'', JList [JDict [(''version'', JInt 6), (''ipaddress'', JStr ''::1'')],
                          JDict [(''version'', JInt 6), (''ipaddress'', JStr ''::2'')]])]
   \<noteq> Inr (JStr ''::1'')"
  by (simp add: derived_ipaddress_def set_ipaddress_def getitem_def)

subsection \<open>The update field-set\<close>

lemma differing_mem:
  "differing props ps = Inr r \<Longrightarrow>
     (x \<in> set r \<longleftrightarrow> x \<in> set ps \<and> getitem props (fst x) \<noteq> Inr (snd x))"
proof (induction ps arbitrary: r)
  case Nil
  then show ?case by simp
next
  case (Cons kv ps)
  obtain k v where kv: "kv = (k, v)" by (cases kv)
  from Cons.prems kv obtain c where c: "getitem props k = Inr c"
    by (cases "getitem props k") simp_all
  from Cons.prems kv c obtain r' where r': "differing props ps = Inr r'"
    by (cases "differing props ps") simp_all
  from Cons.prems kv c r' have r: "r = (if v \<noteq> c then (k, v) # r' else r')"
    by simp
  note ih = Cons.IH [OF r']
  show ?case
  proof (cases "v = c")
    case True
    then have "r = r'" using r by simp
    then show ?thesis using ih kv c True by (cases x) auto
  next
    case False
    then have "r = (k, v) # r'" using r by simp
    then show ?thesis using ih kv c False by (cases x) auto
  qed
qed

lemma update_params_mem:
  assumes "update_params server ps = Inr fs"
  shows "x \<in> set fs \<longleftrightarrow> x \<in> set ps \<and> truthy (snd x) \<and> getitem server (fst x) \<noteq> Inr (snd x)"
proof -
  have "differing server (filter (\<lambda>kv. truthy (snd kv)) ps) = Inr fs"
    using assms by (simp add: update_params_def)
  from differing_mem [OF this, of x] show ?thesis by auto
qed


lemma setitem_not_Nil: "setitem d k v \<noteq> []"
  by (induction d k v rule: setitem.induct) simp_all

lemma post_trace:
  "snd (post e m f d tr) =
     tr @ [Fetch (Request ''POST'' (GLESYS_API_ENDPOINT @ m @ ''/'' @ f) (if d = [] then None else Some d))]"
  by (cases "respond e tr (Request ''POST'' (GLESYS_API_ENDPOINT @ m @ ''/'' @ f) (if d = [] then None else Some d))")
     (simp_all add: post_def bind_def fetch_url_def parse_response_def stop_def ret_def)

lemma bind_snd_post:
  "snd (bind (post e m f d) (\<lambda>r. ret (g r)) tr) = snd (post e m f d tr)"
  by (cases "post e m f d tr"; cases "fst (post e m f d tr)") (auto simp: bind_def ret_def)

lemma desired_fields_value:
  "(k, v) \<in> set (desired_fields p) \<Longrightarrow>
     (k = ''cpucores'' \<longrightarrow> v = jint (p_cpus p)) \<and>
     (k = ''disksize'' \<longrightarrow> v = jint (p_disk p)) \<and>
     (k = ''memorysize'' \<longrightarrow> v = jint (p_memory p)) \<and>
     (k = ''hostname'' \<longrightarrow> v = jstr (p_hostname p))"
  by (auto simp: desired_fields_def)

lemma unset_key_absent:
  assumes "update_params server (desired_fields p) = Inr fs"
      and "\<And>v. (k, v) \<in> set (desired_fields p) \<Longrightarrow> v = JNone"
  shows "k \<notin> fst ` set fs"
proof
  assume "k \<in> fst ` set fs"
  then obtain v where v: "(k, v) \<in> set fs" by auto
  from update_params_mem [OF assms(1), of "(k, v)"] v
  have m: "(k, v) \<in> set (desired_fields p)" and t: "truthy v" by simp_all
  from assms(2) [OF m] t show False by simp
qed

text \<open>
  Claim C5, as amended. The field-set that \<open>GlesysApi.update_server\<close> computes holds only
  fields whose desired value is set and differs from the server's current value, where a
  value counts as set when it is true in Python's sense: neither \<open>None\<close> nor zero nor the
  empty string. So \<open>cpus\<close>, \<open>disk\<close>, \<open>memory\<close> and \<open>hostname\<close> never appear when the task
  leaves them out, and a field given as zero or as the empty string never appears either: it
  is treated as unset. A \<open>bandwidth\<close> that the task leaves out stands for its default 100,
  which is treated as set. An empty field-set sends nothing; any other is sent in one
  \<open>server/edit\<close> request, together with the server's id.
\<close>

theorem update_field_set:
  assumes "update_params server (desired_fields (argument_spec t)) = Inr fs"
  shows "((k, v) \<in> set fs \<longrightarrow>
            (k, v) \<in> set (desired_fields (argument_spec t)) \<and> truthy v \<and>
            getitem server k \<noteq> Inr v) \<and>
         (t_cpus t = None \<longrightarrow> ''cpucores'' \<notin> fst ` set fs) \<and>
         (t_disk t = None \<longrightarrow> ''disksize'' \<notin> fst ` set fs) \<and>
         (t_memory t = None \<longrightarrow> ''memorysize'' \<notin> fst ` set fs) \<and>
         (t_hostname t = None \<longrightarrow> ''hostname'' \<notin> fst ` set fs) \<and>
         (k, JNone) \<notin> set fs \<and> (k, JInt 0) \<notin> set fs \<and> (k, JStr []) \<notin> set fs \<and>
         (t_bandwidth t = None \<longrightarrow>
            desired_fields (argument_spec t) =
            desired_fields (argument_spec (t\<lparr>t_bandwidth := Some 100\<rparr>))) \<and>
         (fs = [] \<longrightarrow> snd (api_update_server e server (desired_fields (argument_spec t)) tr) = tr) \<and>
         (fs \<noteq> [] \<longrightarrow> serverid server = Inr sid \<longrightarrow>
            snd (api_update_server e server (desired_fields (argument_spec t)) tr) =
              tr @ [Fetch (edit_request (setitem fs ''serverid'' sid))])"
proof (intro conjI impI)
  assume "(k, v) \<in> set fs"
  then show "(k, v) \<in> set (desired_fields (argument_spec t))" "truthy v"
    "getitem server k \<noteq> Inr v"
    using update_params_mem [OF assms, of "(k, v)"] by simp_all
next
  assume "t_cpus t = None"
  then show "''cpucores'' \<notin> fst ` set fs"
    using desired_fields_value [of "''cpucores''" _ "argument_spec t"]
    by (intro unset_key_absent [OF assms]) (simp add: argument_spec_def jint_def)
next
  assume "t_disk t = None"
  then show "''disksize'' \<notin> fst ` set fs"
    using desired_fields_value [of "''disksize''" _ "argument_spec t"]
    by (intro unset_key_absent [OF assms]) (simp add: argument_spec_def jint_def)
next
  assume "t_memory t = None"
  then show "''memorysize'' \<notin> fst ` set fs"
    using desired_fields_value [of "''memorysize''" _ "argument_spec t"]
    by (intro unset_key_absent [OF assms]) (simp add: argument_spec_def jint_def)
next
  assume "t_hostname t = None"
  then show "''hostname'' \<notin> fst ` set fs"
    using desired_fields_value [of "''hostname''" _ "argument_spec t"]
    by (intro unset_key_absent [OF assms]) (simp add: argument_spec_def jstr_def)
next
  show "(k, JNone) \<notin> set fs"
    using update_params_mem [OF assms, of "(k, JNone)"] by simp
  show "(k, JInt 0) \<notin> set fs"
    using update_params_mem [OF assms, of "(k, JInt 0)"] by simp
  show "(k, JStr []) \<notin> set fs"
    using update_params_mem [OF assms, of "(k, JStr [])"] by simp
next
  assume "t_bandwidth t = None"
  then show "desired_fields (argument_spec t) =
            desired_fields (argument_spec (t\<lparr>t_bandwidth := Some 100\<rparr>))"
    by (simp add: desired_fields_def argument_spec_def or_default_def)
next
  assume "fs = []"
  then show "snd (api_update_server e server (desired_fields (argument_spec t)) tr) = tr"
    using assms by (simp add: api_update_server_def bind_def lift_def ret_def)
next
  assume ne: "fs \<noteq> []" and sid: "serverid server = Inr sid"
  have "api_update_server e server (desired_fields (argument_spec t)) tr =
          bind (post e ''server'' ''edit'' (setitem fs ''serverid'' sid))
            (\<lambda>serverjson. ret (True, Some serverjson)) tr"
    using assms ne sid by (simp add: api_update_server_def bind_def lift_def ret_def)
  then show "snd (api_update_server e server (desired_fields (argument_spec t)) tr) =
              tr @ [Fetch (edit_request (setitem fs ''serverid'' sid))]"
    by (simp add: bind_snd_post post_trace setitem_not_Nil edit_request_def)
qed

theorem update_field_set_witness:
  "update_params demo_server (desired_fields (argument_spec mixed_task))
     = Inr [(''cpucores'', JInt 2)] \<and>
   (''memorysize'', JInt 0) \<notin> set [(''cpucores'', JInt 2)] \<and>
   snd (api_update_server demo_env demo_server (desired_fields (argument_spec mixed_task)) []) =
     [Fetch (edit_request [(''cpucores'', JInt 2), (''serverid'', JStr ''wps1'')])]"
proof -
  have h: "update_params demo_server (desired_fields (argument_spec mixed_task))
           = Inr [(''cpucores'', JInt 2)]"
    by code_simp
  have s: "serverid demo_server = Inr (JStr ''wps1'')"
    by code_simp
  show ?thesis
    using h s
      update_field_set [OF h, where k = "''memorysize''" and v = JNone and e = demo_env
                                and tr = "[]" and sid = "JStr ''wps1''"]
    by simp
qed

text \<open>
  Against claim C5: a desired core count of zero is set and differs from the server's one
  core, so the field-set of the specification holds it, and the module's does not; and a
  task that gives only a new disk size sends the default bandwidth along, which the
  field-set of the specification, made from what the task gives, does not hold.
\<close>

theorem zero_and_default_counterexample:
  "update_params demo_server (desired_fields (argument_spec zero_task)) = Inr [] \<and>
   spec_field_set demo_server (task_fields zero_task) = [(''cpucores'', JInt 0)] \<and>
   t_bandwidth disk_task = None \<and>
   update_params wide_server (desired_fields (argument_spec disk_task)) =
     Inr [(''disksize'', JInt 40), (''bandwidth'', JInt 100)] \<and>
   spec_field_set wide_server (task_fields disk_task) = [(''disksize'', JInt 40)]"
  by code_simp

text \<open>
  Claim C8, as amended. When the field-set is empty after the unset and the unchanged
  fields are removed, \<open>GlesysApi.update_server\<close> returns \<open>(False, None)\<close> normally, and
  makes no request.
\<close>

theorem empty_update_returns:
  assumes "update_params server ps = Inr []"
  shows "api_update_server e server ps tr = (Done (False, None), tr)"
  using assms by (simp add: api_update_server_def bind_def lift_def ret_def)

theorem empty_update_returns_witness:
  "update_params demo_server (desired_fields full_params) = Inr [] \<and>
   api_update_server demo_env demo_server (desired_fields full_params) [] = (Done (False, None), [])"
proof -
  have h: "update_params demo_server (desired_fields full_params) = Inr []"
    by code_simp
  show ?thesis using h empty_update_returns [OF h, of demo_env "[]"] by simp
qed

text \<open>With nothing to change, the update does not fail, against claim C8.\<close>

theorem empty_update_fails_counterexample:
  "update_params demo_server (desired_fields full_params) = Inr [] \<and>
   \<not> failed (fst (api_update_server demo_env demo_server (desired_fields full_params) []))"
  by code_simp

subsection \<open>Sequencing\<close>

lemma bind_ret: "bind (ret x) f = f x"
  by (rule ext) (simp add: bind_def ret_def)

lemma bind_stop: "bind (stop x) f = stop x"
  by (rule ext) (simp add: bind_def stop_def)

lemma bind_Done: "m tr = (Done x, tr') \<Longrightarrow> bind m f tr = f x tr'"
  by (simp add: bind_def)

lemma bind_Stop: "m tr = (Stop x, tr') \<Longrightarrow> bind m f tr = (Stop x, tr')"
  by (simp add: bind_def)

lemma bind_OutOfFuel: "m tr = (OutOfFuel, tr') \<Longrightarrow> bind m f tr = (OutOfFuel, tr')"
  by (simp add: bind_def)

lemma bind_assoc: "bind (bind m f) g = bind m (\<lambda>x. bind (f x) g)"
proof (rule ext)
  fix tr
  show "bind (bind m f) g tr = bind m (\<lambda>x. bind (f x) g) tr"
  proof (cases "m tr")
    case (Pair r t)
    then show ?thesis by (cases r) (simp_all add: bind_def)
  qed
qed

lemma lift_Inr: "lift (Inr x) = ret x"
  by (simp add: lift_def)

lemma lift_Inl: "lift (Inl x) = stop (Raised x)"
  by (simp add: lift_def)

lemma snd_bind_pure:
  assumes "\<And>x t. snd (f x t) = t"
  shows "snd (bind m f tr) = snd (m tr)"
proof (cases "m tr")
  case (Pair r t)
  then show ?thesis using assms by (cases r) (simp_all add: bind_def)
qed

lemma snd_lift: "snd (lift r t) = t"
  by (cases r) (simp_all add: lift_def stop_def ret_def)

subsection \<open>The wait loops\<close>

lemma status_script_poll:
  assumes "respond e = status_script states"
      and "length (filter is_fetch tr) < length states"
  shows "get_server_status e (JStr sid) tr =
           (Done (JStr (states ! length (filter is_fetch tr))), tr @ [Fetch (status_request sid)])"
  using assms
  by (simp add: get_server_status_def query_def bind_def lift_def ret_def fetch_url_def
        parse_response_def status_script_def status_request_def getitem_def Let_def)

text \<open>
  Claim C9. Against a provider that reports \<open>locked\<close>, \<open>locked\<close>, \<open>running\<close>, each of the two
  wait loops (the lock wait, and the state wait with target \<open>running\<close>) makes exactly three
  status polls, sleeps 1 between consecutive polls, and ends normally after the poll that is
  answered \<open>running\<close>, whenever it may make three loop tests or more.
\<close>

theorem lock_wait_three_polls:
  "wait_for_server_lock (3 + n) (e\<lparr>respond := status_script [''locked'', ''locked'', ''running'']\<rparr>)
       (JStr sid) [] =
     (Done (), [Fetch (status_request sid), Sleep 1, Fetch (status_request sid), Sleep 1,
                Fetch (status_request sid)]) \<and>
   wait_for_server_state (3 + n) (e\<lparr>respond := status_script [''locked'', ''locked'', ''running'']\<rparr>)
       (JStr sid) ''running'' [] =
     (Done (), [Fetch (status_request sid), Print ''state: locked'', Sleep 1,
                Fetch (status_request sid), Print ''state: locked'', Sleep 1,
                Fetch (status_request sid), Print ''state: running'']) \<and>
   status_script [''locked'', ''locked'', ''running'']
       [Fetch (status_request sid), Sleep 1, Fetch (status_request sid), Sleep 1]
       (status_request sid) =
     Reply_server [(''state'', JStr ''running'')]"
proof -
  let ?e = "e\<lparr>respond := status_script [''locked'', ''locked'', ''running'']\<rparr>"
  have r: "respond ?e = status_script [''locked'', ''locked'', ''running'']" by simp
  have f: "3 + n = Suc (Suc (Suc n))" by simp
  note poll = status_script_poll [OF r]
  show ?thesis
    unfolding f
    by (simp add: wait_for_server_lock_def bind_def poll sleep_def py_print_def emit_def ret_def
          lift_def status_script_def)
qed

theorem lock_wait_three_polls_witness:
  "wait_for_server_lock 3 (demo_env\<lparr>respond := status_script [''locked'', ''locked'', ''running'']\<rparr>)
       (JStr ''wps1'') [] =
     (Done (), [Fetch (status_request ''wps1''), Sleep 1, Fetch (status_request ''wps1''), Sleep 1,
                Fetch (status_request ''wps1'')])"
  using lock_wait_three_polls [of 0 demo_env "''wps1''"] by simp


subsection \<open>The root password of a new server\<close>

lemma generated_password:
  "generate_temp_password e 64 tr =
     (Done (map (\<lambda>c. chars ! (unat c mod length chars)) (map (entropy e tr) [0..<64])),
      tr @ [Urandom 64])"
  by (simp add: generate_temp_password_def bind_def urandom_def ret_def)

text \<open>
  Claim C6. \<open>GlesysApi.create_server\<close> never submits an empty root password. A non-empty
  password is submitted as given, and no random byte is read. For the empty password the
  64 characters of one \<open>generate_temp_password\<close> call are submitted, all of them from the
  alphabet. (On \<open>None\<close>, \<open>len\<close> raises and nothing is submitted.)
\<close>

theorem create_password_never_empty:
  "case pw of
     None \<Rightarrow>
       api_create_server e h dc pl t c m d (jstr pw) bw desc u k tr = (Stop (Raised TypeError), tr)
   | Some s \<Rightarrow>
       (\<exists>s' body.
          snd (api_create_server e h dc pl t c m d (jstr pw) bw desc u k tr) =
            tr @ (if s = [] then [Urandom 64] else []) @ [Fetch (create_request body)] \<and>
          getitem body ''rootpassword'' = Inr (JStr s') \<and>
          s' \<noteq> [] \<and>
          (if s = [] then length s' = 64 \<and> set s' \<subseteq> set chars else s' = s))"
proof (cases pw)
  case None
  then show ?thesis
    by (simp add: api_create_server_def jstr_def lift_Inl bind_stop) (simp add: stop_def)
next
  case (Some s)
  define body where "body = (\<lambda>p.
              [(''hostname'', h), (''platform'', pl), (''datacenter'', dc), (''templatename'', t),
               (''disksize'', d), (''memorysize'', m), (''cpucores'', c), (''bandwidth'', bw),
               (''rootpassword'', p), (''description'', desc), (''users'', u),
               (''ssh_pub_key'', k)])"
  have rp: "getitem (body p) ''rootpassword'' = Inr p" for p
    by (simp add: body_def getitem_def)
  have ne: "body p \<noteq> []" for p
    by (simp add: body_def)
  have sent: "snd (bind (post e ''server'' ''create'' (body p))
                    (\<lambda>serverjson. lift (response_server serverjson)) tr') =
              tr' @ [Fetch (create_request (body p))]" for p tr'
    by (simp add: snd_bind_pure [OF snd_lift] post_trace ne create_request_def)
  show ?thesis
  proof (cases "s = []")
    case True
    define g where "g = map (\<lambda>c. chars ! (unat c mod length chars)) (map (entropy e tr) [0..<64])"
    have g: "length g = 64" "set g \<subseteq> set chars"
      using chars_nth_mem by (auto simp: g_def)
    then have gne: "g \<noteq> []" by auto
    have gen: "generate_temp_password e 64 tr = (Done g, tr @ [Urandom 64])"
      unfolding g_def by (rule generated_password)
    have "api_create_server e h dc pl t c m d (jstr pw) bw desc u k tr =
            bind (post e ''server'' ''create'' (body (JStr g)))
              (\<lambda>serverjson. lift (response_server serverjson)) (tr @ [Urandom 64])"
      using Some True
      by (simp add: api_create_server_def jstr_def lift_Inr bind_ret bind_assoc
            bind_Done [of "generate_temp_password e 64", OF gen] body_def)
    then have "snd (api_create_server e h dc pl t c m d (jstr pw) bw desc u k tr) =
            tr @ [Urandom 64] @ [Fetch (create_request (body (JStr g)))]"
      by (simp add: sent)
    then have "snd (api_create_server e h dc pl t c m d (jstr pw) bw desc u k tr) =
            tr @ (if s = [] then [Urandom 64] else []) @ [Fetch (create_request (body (JStr g)))] \<and>
          getitem (body (JStr g)) ''rootpassword'' = Inr (JStr g) \<and>
          g \<noteq> [] \<and>
          (if s = [] then length g = 64 \<and> set g \<subseteq> set chars else g = s)"
      using True g gne rp [of "JStr g"] by simp
    then show ?thesis
      unfolding Some option.case by blast
  next
    case False
    have "api_create_server e h dc pl t c m d (jstr pw) bw desc u k tr =
            bind (post e ''server'' ''create'' (body (JStr s)))
              (\<lambda>serverjson. lift (response_server serverjson)) tr"
      using Some False
      by (simp add: api_create_server_def jstr_def lift_Inr bind_ret body_def)
    then have "snd (api_create_server e h dc pl t c m d (jstr pw) bw desc u k tr) =
            tr @ [Fetch (create_request (body (JStr s)))]"
      by (simp add: sent)
    then have "snd (api_create_server e h dc pl t c m d (jstr pw) bw desc u k tr) =
            tr @ (if s = [] then [Urandom 64] else []) @ [Fetch (create_request (body (JStr s)))] \<and>
          getitem (body (JStr s)) ''rootpassword'' = Inr (JStr s) \<and>
          s \<noteq> [] \<and>
          (if s = [] then length s = 64 \<and> set s \<subseteq> set chars else s = s)"
      using False rp [of "JStr s"] by simp
    then show ?thesis
      unfolding Some option.case by blast
  qed
qed

theorem create_password_never_empty_witness:
  "(\<exists>s' body.
      snd (api_create_server demo_env JNone JNone JNone JNone JNone JNone JNone (JStr [])
             JNone JNone JNone JNone []) = [Urandom 64, Fetch (create_request body)] \<and>
      getitem body ''rootpassword'' = Inr (JStr s') \<and> s' \<noteq> [] \<and>
      length s' = 64 \<and> set s' \<subseteq> set chars) \<and>
   (\<exists>body.
      snd (api_create_server demo_env JNone JNone JNone JNone JNone JNone JNone (JStr ''secret'')
             JNone JNone JNone JNone []) = [Fetch (create_request body)] \<and>
      getitem body ''rootpassword'' = Inr (JStr ''secret''))"
proof
  show "\<exists>s' body.
      snd (api_create_server demo_env JNone JNone JNone JNone JNone JNone JNone (JStr [])
             JNone JNone JNone JNone []) = [Urandom 64, Fetch (create_request body)] \<and>
      getitem body ''rootpassword'' = Inr (JStr s') \<and> s' \<noteq> [] \<and>
      length s' = 64 \<and> set s' \<subseteq> set chars"
    using create_password_never_empty
      [where pw = "Some []" and e = demo_env and h = JNone and dc = JNone and pl = JNone
         and t = JNone and c = JNone and m = JNone and d = JNone and bw = JNone
         and desc = JNone and u = JNone and k = JNone and tr = "[]"]
    by (simp add: jstr_def)
next
  show "\<exists>body.
      snd (api_create_server demo_env JNone JNone JNone JNone JNone JNone JNone (JStr ''secret'')
             JNone JNone JNone JNone []) = [Fetch (create_request body)] \<and>
      getitem body ''rootpassword'' = Inr (JStr ''secret'')"
    using create_password_never_empty
      [where pw = "Some ''secret''" and e = demo_env and h = JNone and dc = JNone
         and pl = JNone and t = JNone and c = JNone and m = JNone and d = JNone and bw = JNone
         and desc = JNone and u = JNone and k = JNone and tr = "[]"]
    by (simp add: jstr_def)
qed

subsection \<open>Runs against concrete providers\<close>

text \<open>
  Claim C1, at an input where the module breaks it. The task names the server by its id and
  gives the disk size the server already has; the provider never changes the server. The
  first run and a second run after it both end with \<open>changed=True\<close>, and neither sends a
  \<open>POST\<close>: the condition of \<open>GlesysRunner.update_server\<close> compares the unset parameters
  (\<open>None\<close>) with the server's values, and the block sets \<open>changed = True\<close> although
  \<open>GlesysApi.update_server\<close> found nothing to change. When the task gives every compared
  parameter as the server has it, the run ends with \<open>changed=False\<close>.
\<close>

theorem second_run_reports_changed:
  "fst (run 3 demo_env []) =
     Stop (Exit_json True None (Some (setitem demo_server ''ipaddress'' (JStr ''1.2.3.4'')))) \<and>
   fst (run 3 demo_env (snd (run 3 demo_env []))) =
     Stop (Exit_json True None (Some (setitem demo_server ''ipaddress'' (JStr ''1.2.3.4'')))) \<and>
   \<not> list_ex is_post (snd (run 3 demo_env (snd (run 3 demo_env [])))) \<and>
   fst (run 3 (demo_env\<lparr>module_params := full_params\<rparr>) []) =
     Stop (Exit_json False None (Some (setitem demo_server ''ipaddress'' (JStr ''1.2.3.4''))))"
  by code_simp

text \<open>
  Claim C2, at an input where the module breaks it. The server does not support editing the
  bandwidth. A task that differs from it in the core count and in the bandwidth makes the
  module send both fields in its \<open>server/edit\<close> request: the support is only tested in the
  condition of \<open>GlesysRunner.update_server\<close>, not where the field-set is built. A task that
  differs in the bandwidth alone sends no edit and leaves \<open>changed\<close> false.
\<close>

theorem unsupported_bandwidth_submitted:
  "editbandwidth demo_server = Inr False \<and>
   update_server 3
     (demo_env\<lparr>module_params := full_params\<lparr>p_cpus := Some 2, p_bandwidth := Some 200\<rparr>\<rparr>)
     demo_server False [] =
     (Done (True, demo_server),
      [Fetch (details_request ''wps1''),
       Fetch (edit_request [(''cpucores'', JInt 2), (''bandwidth'', JInt 200),
                            (''serverid'', JStr ''wps1'')]),
       Fetch (details_request ''wps1''),
       Fetch (status_request ''wps1'')]) \<and>
   update_server 3 (demo_env\<lparr>module_params := full_params\<lparr>p_bandwidth := Some 200\<rparr>\<rparr>)
     demo_server False [] =
     (Done (False, demo_server), [Fetch (details_request ''wps1'')])"
  by code_simp

text \<open>
  Claim C4, at inputs where the module breaks it. No server matches the task. For the states
  \<open>running\<close>, \<open>stopped\<close> and \<open>rebooted\<close> the run makes the lookup and then ends in an
  \<open>AttributeError\<close> on \<open>None\<close>, with or without \<open>wait\<close>: the block that creates the server
  is guarded by \<open>state == "present"\<close>. For \<open>present\<close> the run creates the server, polls its
  state until it is \<open>running\<close>, sleeps 1 and ends with \<open>changed=True\<close>.
\<close>

theorem no_create_unless_present:
  "run 3 (demo_env\<lparr>module_params := new_params\<lparr>p_state := ''running''\<rparr>,
                   respond := fresh_provider demo_server\<rparr>) [] =
     (Stop (Raised AttributeError), [Fetch list_request]) \<and>
   run 3 (demo_env\<lparr>module_params := new_params\<lparr>p_state := ''stopped''\<rparr>,
                   respond := fresh_provider demo_server\<rparr>) [] =
     (Stop (Raised AttributeError), [Fetch list_request]) \<and>
   run 3 (demo_env\<lparr>module_params := new_params\<lparr>p_state := ''rebooted''\<rparr>,
                   respond := fresh_provider demo_server\<rparr>) [] =
     (Stop (Raised AttributeError), [Fetch list_request]) \<and>
   run 3 (demo_env\<lparr>module_params := new_params\<lparr>p_state := ''running'', p_wait := False\<rparr>,
                   respond := fresh_provider demo_server\<rparr>) [] =
     (Stop (Raised AttributeError), [Fetch list_request]) \<and>
   run 3 (demo_env\<lparr>module_params := new_params, respond := fresh_provider demo_server\<rparr>) [] =
     (Stop (Exit_json True None (Some (setitem demo_server ''ipaddress'' (JStr ''1.2.3.4'')))),
      [Fetch list_request,
       Fetch (create_request
         [(''hostname'', JStr ''host01''), (''platform'', JStr ''VMware''),
          (''datacenter'', JStr ''Falkenberg''), (''templatename'', JStr ''Debian 9 64-bit''),
          (''disksize'', JInt 20), (''memorysize'', JInt 2048), (''cpucores'', JInt 1),
          (''bandwidth'', JInt 100), (''rootpassword'', JStr ''secret''),
          (''description'', JNone), (''users'', JNone), (''ssh_pub_key'', JNone)]),
       Fetch (status_request ''wps1''), Print ''state: running'', Sleep 1,
       Fetch (status_request ''wps1''),
       Fetch (status_request ''wps1''), Print ''state: running'',
       Fetch (details_request ''wps1'')])"
  by code_simp

subsection \<open>Check mode\<close>

lemma fetch_url_cm: "fetch_url (e\<lparr>check_mode := b\<rparr>) = fetch_url e"
  by (intro ext) (simp add: fetch_url_def)

lemma query_cm: "query (e\<lparr>check_mode := b\<rparr>) = query e"
  by (intro ext) (simp add: query_def fetch_url_cm)

lemma post_cm: "post (e\<lparr>check_mode := b\<rparr>) = post e"
  by (intro ext) (simp add: post_def fetch_url_cm)

lemma get_server_status_cm: "get_server_status (e\<lparr>check_mode := b\<rparr>) = get_server_status e"
  by (intro ext) (simp add: get_server_status_def query_cm)

lemma get_server_details_cm: "get_server_details (e\<lparr>check_mode := b\<rparr>) = get_server_details e"
  by (intro ext) (simp add: get_server_details_def query_cm)

lemma server_update_cm: "server_update (e\<lparr>check_mode := b\<rparr>) = server_update e"
  by (intro ext) (simp add: server_update_def get_server_details_cm)

lemma get_server_cm: "get_server (e\<lparr>check_mode := b\<rparr>) = get_server e"
  unfolding get_server_def find_def list_server_def query_cm server_update_cm by (rule refl)

lemma lock_loop_cm: "lock_loop n (e\<lparr>check_mode := b\<rparr>) sid = lock_loop n e sid"
proof (induction n)
  case 0
  show ?case by (intro ext) simp
next
  case (Suc n)
  show ?case by (intro ext) (simp add: Suc get_server_status_cm)
qed

lemma wait_for_server_lock_cm:
  "wait_for_server_lock n (e\<lparr>check_mode := b\<rparr>) = wait_for_server_lock n e"
  by (intro ext) (simp add: wait_for_server_lock_def get_server_status_cm lock_loop_cm)

lemma api_update_server_cm:
  "api_update_server (e\<lparr>check_mode := b\<rparr>) = api_update_server e"
  unfolding api_update_server_def post_cm by (rule refl)

lemma update_server_cm:
  "update_server n (e\<lparr>check_mode := b\<rparr>) = update_server n e"
  unfolding update_server_def get_server_details_cm api_update_server_cm
    server_update_cm wait_for_server_lock_cm by simp

lemma run_absent_cm: "run_absent n (e\<lparr>check_mode := b\<rparr>) = run_absent n e"
  unfolding run_absent_def wait_for_server_lock_cm remove_server_def post_cm by (rule refl)


lemma wait_for_server_state_cm:
  "wait_for_server_state n (e\<lparr>check_mode := b\<rparr>) sid target = wait_for_server_state n e sid target"
proof (induction n)
  case 0
  show ?case by (intro ext) simp
next
  case (Suc n)
  show ?case
    unfolding wait_for_server_state.simps get_server_status_cm Suc by (rule refl)
qed

lemma run_absent_state_cm:
  assumes "p_state (module_params e) = ''absent''"
  shows "run n (e\<lparr>check_mode := b\<rparr>) = run n e"
proof -
  have p: "module_params (e\<lparr>check_mode := b\<rparr>) = module_params e" by simp
  have a: "(''absent'' = ''present'') = False" by simp
  show ?thesis
    unfolding run_def p Let_def assms a if_False get_server_cm run_absent_cm server_update_cm
      wait_for_server_state_cm
    by (rule refl)
qed

lemma post_result:
  "post e m f d tr =
     (case respond e tr (Request ''POST'' (GLESYS_API_ENDPOINT @ m @ ''/'' @ f)
                           (if d = [] then None else Some d)) of
        HttpError msg \<Rightarrow> Stop (Fail_json msg)
      | Reply_servers ds \<Rightarrow> Done (Reply_servers ds)
      | Reply_server s \<Rightarrow> Done (Reply_server s)
      | Reply_empty \<Rightarrow> Done Reply_empty,
      tr @ [Fetch (Request ''POST'' (GLESYS_API_ENDPOINT @ m @ ''/'' @ f)
                     (if d = [] then None else Some d))])"
  by (cases "respond e tr (Request ''POST'' (GLESYS_API_ENDPOINT @ m @ ''/'' @ f)
                             (if d = [] then None else Some d))")
     (simp_all add: post_def bind_def fetch_url_def parse_response_def stop_def ret_def)

lemma run_absent_found:
  assumes "serverid s = Inr (JStr sid)"
      and "wait_for_server_lock n e (JStr sid) tr1 = (Done (), tr2)"
  shows "run_absent n e (Some s) tr1 =
     (case respond e tr2 (destroy_request sid) of
        HttpError msg \<Rightarrow> Stop (Fail_json msg)
      | Reply_servers ds \<Rightarrow> Stop (Exit_json True (Some (''Server '' @ sid @ '' deleted'')) None)
      | Reply_server d \<Rightarrow> Stop (Exit_json True (Some (''Server '' @ sid @ '' deleted'')) None)
      | Reply_empty \<Rightarrow> Stop (Exit_json True (Some (''Server '' @ sid @ '' deleted'')) None),
      tr2 @ [Fetch (destroy_request sid)])"
proof -
  have "run_absent n e (Some s) tr1 =
          bind (remove_server e (JStr sid))
            (\<lambda>_. exit_json True (Some (''Server '' @ sid @ '' deleted'')) None) tr2"
    by (simp add: run_absent_def assms(1) lift_Inr bind_ret
          bind_Done [of "wait_for_server_lock n e (JStr sid)", OF assms(2)])
  then show ?thesis
    by (cases "respond e tr2 (destroy_request sid)")
       (simp_all add: remove_server_def bind_def post_result destroy_request_def exit_json_def
          stop_def)
qed

text \<open>Every computation only adds events to the trace.\<close>

lemma grows_bind_from:
  assumes "\<And>x t. prefix t (snd (f x t))"
  shows "prefix (snd (m tr)) (snd (bind m f tr))"
proof (cases "m tr")
  case (Pair r t)
  then show ?thesis using assms by (cases r) (simp_all add: bind_def)
qed

lemma grows_bind:
  assumes "\<And>t. prefix t (snd (m t))" and "\<And>x t. prefix t (snd (f x t))"
  shows "prefix tr (snd (bind m f tr))"
  using assms(1) [of tr] grows_bind_from [of f m tr, OF assms(2)] by (rule prefix_order.trans)

lemma grows_ret: "prefix t (snd (ret x t))"
  by (simp add: ret_def)

lemma grows_stop: "prefix t (snd (stop x t))"
  by (simp add: stop_def)

lemma grows_lift: "prefix t (snd (lift r t))"
  by (simp add: snd_lift)

lemma grows_emit: "prefix t (snd (emit ev t))"
  by (simp add: emit_def)

lemma grows_fetch_url: "prefix t (snd (fetch_url e req t))"
  by (simp add: fetch_url_def)

lemma grows_parse_response: "prefix t (snd (parse_response r t))"
  by (cases r) (simp_all add: parse_response_def stop_def ret_def)

lemma grows_query: "prefix t (snd (query e m f d t))"
  unfolding query_def
  by (intro grows_bind grows_lift grows_fetch_url grows_parse_response)

lemma grows_post: "prefix t (snd (post e m f d t))"
  by (simp add: post_trace)

lemma grows_get_server_status: "prefix t (snd (get_server_status e sid t))"
  unfolding get_server_status_def
  by (intro grows_bind grows_lift grows_query)

lemma grows_get_server_details: "prefix t (snd (get_server_details e sid t))"
  unfolding get_server_details_def by (rule grows_query)

lemma grows_server_update: "prefix t (snd (server_update e s t))"
  unfolding server_update_def
  by (intro grows_bind grows_lift grows_get_server_details grows_ret)

lemma grows_lock_loop: "prefix t (snd (lock_loop n e sid st t))"
proof (induction n arbitrary: st t)
  case 0
  show ?case by simp
next
  case (Suc n)
  show ?case
  proof (cases "st = JStr ''locked''")
    case True
    have "prefix t (snd (bind (emit (Sleep 1))
                    (\<lambda>_. bind (get_server_status e sid) (lock_loop n e sid)) t))"
      by (intro grows_bind grows_emit grows_get_server_status Suc)
    then show ?thesis using True by (simp add: sleep_def)
  next
    case False
    then show ?thesis by (simp add: grows_ret)
  qed
qed

lemma grows_wait_for_server_lock: "prefix t (snd (wait_for_server_lock n e sid t))"
  unfolding wait_for_server_lock_def
  by (intro grows_bind grows_get_server_status grows_lock_loop)

lemma grows_after_update:
  "prefix t (snd (bind (case snd r of
                          None \<Rightarrow> ret server
                        | Some serverjson \<Rightarrow>
                            bind (lift (response_server serverjson)) (\<lambda>d. ret (AnsibleGlesysServer d)))
                  (\<lambda>server.
                     bind (server_update e server) (\<lambda>server.
                     bind (if w then bind (lift (serverid server)) (wait_for_server_lock n e)
                           else ret ()) (\<lambda>_.
                     ret (True, server)))) t))"
proof (intro grows_bind)
  fix t
  show "prefix t (snd ((case snd r of
                          None \<Rightarrow> ret server
                        | Some serverjson \<Rightarrow>
                            bind (lift (response_server serverjson)) (\<lambda>d. ret (AnsibleGlesysServer d))) t))"
    by (cases "snd r") (simp_all add: grows_ret grows_bind grows_lift)
next
  fix x t
  show "prefix t (snd (server_update e x t))" by (rule grows_server_update)
next
  fix x t
  show "prefix t (snd ((if w then bind (lift (serverid x)) (wait_for_server_lock n e) else ret ()) t))"
    by (cases w) (simp_all add: grows_ret grows_bind grows_lift grows_wait_for_server_lock)
next
  fix x :: dict and t
  show "prefix t (snd (ret (True, x) t))" by (rule grows_ret)
qed

lemma update_server_sends_edit:
  assumes "serverid srv = Inr sid"
      and "get_server_details e sid tr = (Done data, tr1)"
      and "response_server data = Inr sd"
      and "needs_update (module_params e) sd = Inr True"
      and "update_params srv (desired_fields (module_params e)) = Inr fs"
      and "fs \<noteq> []"
  shows "prefix (tr1 @ [Fetch (edit_request (setitem fs ''serverid'' sid))])
           (snd (update_server n e srv c tr))"
proof -
  let ?K = "\<lambda>r. bind (case snd r of
                          None \<Rightarrow> ret srv
                        | Some serverjson \<Rightarrow>
                            bind (lift (response_server serverjson)) (\<lambda>d. ret (AnsibleGlesysServer d)))
                  (\<lambda>server.
                     bind (server_update e server) (\<lambda>server.
                     bind (if p_wait (module_params e)
                           then bind (lift (serverid server)) (wait_for_server_lock n e)
                           else ret ()) (\<lambda>_.
                     ret (True, server))))"
  let ?P = "post e ''server'' ''edit'' (setitem fs ''serverid'' sid)"
  have api: "api_update_server e srv (desired_fields (module_params e)) =
               bind ?P (\<lambda>serverjson. ret (True, Some serverjson))"
    using assms(1,5,6) by (simp add: api_update_server_def lift_Inr bind_ret)
  have "update_server n e srv c tr =
          bind (api_update_server e srv (desired_fields (module_params e))) ?K tr1"
    using assms(1,3,4)
    by (simp add: update_server_def Let_def lift_Inr bind_ret
          bind_Done [of "get_server_details e sid", OF assms(2)])
  then have u: "update_server n e srv c tr =
                  bind ?P (\<lambda>x. bind (ret (True, Some x)) ?K) tr1"
    by (simp only: api bind_assoc)
  have "prefix (snd (?P tr1)) (snd (bind ?P (\<lambda>x. bind (ret (True, Some x)) ?K) tr1))"
    by (rule grows_bind_from) (simp only: bind_ret grows_after_update)
  then show ?thesis
    by (simp only: u post_trace setitem_not_Nil if_False edit_request_def) simp
qed

text \<open>
  The lock wait ends when the provider stops reporting \<open>locked\<close>: after \<open>k\<close> polls answered
  \<open>locked\<close> and one answered otherwise, given more than \<open>k\<close> loop tests.
\<close>

lemma poll_answer:
  assumes "status_answer e tr sid = Some v"
  shows "get_server_status e (JStr sid) tr = (Done v, tr @ [Fetch (status_request sid)])"
proof -
  from assms obtain d where d: "respond e tr (status_request sid) = Reply_server d"
    and v: "getitem d ''state'' = Inr v"
    by (auto simp: status_answer_def split: reply.splits sum.splits)
  show ?thesis
    using d v
    by (simp add: get_server_status_def query_def bind_def lift_def ret_def fetch_url_def
          parse_response_def status_request_def)
qed

lemma lock_wait_clears:
  assumes "\<forall>i<k. status_answer e (tr @ lock_polls sid i) sid = Some (JStr ''locked'')"
      and "status_answer e (tr @ lock_polls sid k) sid = Some v"
      and "v \<noteq> JStr ''locked''"
      and "k < n"
  shows "wait_for_server_lock n e (JStr sid) tr =
           (Done (), tr @ lock_polls sid k @ [Fetch (status_request sid)])"
  using assms
proof (induction k arbitrary: tr n)
  case 0
  from "0.prems"(4) obtain m where n: "n = Suc m" by (cases n) simp_all
  have p: "get_server_status e (JStr sid) tr = (Done v, tr @ [Fetch (status_request sid)])"
    using "0.prems"(2) by (simp add: poll_answer)
  show ?case
    unfolding wait_for_server_lock_def n
    by (simp add: bind_Done [of "get_server_status e (JStr sid)", OF p] "0.prems"(3) ret_def)
next
  case (Suc k)
  from Suc.prems(4) obtain m where n: "n = Suc m" and km: "k < m" by (cases n) simp_all
  let ?tr = "tr @ [Fetch (status_request sid), Sleep 1]"
  have first: "status_answer e tr sid = Some (JStr ''locked'')"
    using Suc.prems(1) [rule_format, of 0] by simp
  have p: "get_server_status e (JStr sid) tr =
             (Done (JStr ''locked''), tr @ [Fetch (status_request sid)])"
    using first by (rule poll_answer)
  have later: "\<forall>i<k. status_answer e (?tr @ lock_polls sid i) sid = Some (JStr ''locked'')"
  proof (intro allI impI)
    fix i assume "i < k"
    then show "status_answer e (?tr @ lock_polls sid i) sid = Some (JStr ''locked'')"
      using Suc.prems(1) [rule_format, of "Suc i"] by simp
  qed
  have last: "status_answer e (?tr @ lock_polls sid k) sid = Some v"
    using Suc.prems(2) by simp
  have ih: "wait_for_server_lock m e (JStr sid) ?tr =
              (Done (), ?tr @ lock_polls sid k @ [Fetch (status_request sid)])"
    by (rule Suc.IH [OF later last Suc.prems(3) km])
  have "wait_for_server_lock n e (JStr sid) tr = wait_for_server_lock m e (JStr sid) ?tr"
    unfolding n wait_for_server_lock_def [of "Suc m"]
    by (simp add: bind_Done [of "get_server_status e (JStr sid)", OF p] sleep_def
          bind_Done [of "emit (Sleep 1)" _ "()", OF emit_def] wait_for_server_lock_def)
  then show ?case using ih by simp
qed

text \<open>
  Claim C10. Check mode is only consulted where a server is created. In check mode
  \<open>create_server\<close> exits with \<open>changed=True\<close> and no server before any request, and so does a
  run with state \<open>present\<close> whose lookup finds no server. When the desired state is \<open>absent\<close>
  and the lookup finds a server that the provider reports \<open>locked\<close> for \<open>k\<close> polls and then
  in another state, the run in check mode sends the \<open>server/destroy\<close> request after these
  polls and ends with \<open>changed=True\<close>, unless the provider answers that request with an
  error. Every run with state \<open>absent\<close> does in check mode exactly what it does without.
  \<open>GlesysRunner.update_server\<close> also does exactly what it does without check mode, and when
  its condition holds and the field-set is not empty it sends the \<open>server/edit\<close> request
  right after it has read the details.
\<close>

theorem check_mode_guards_only_create:
  assumes "check_mode e"
  shows "create_server e tr' = (Stop (Exit_json True None None), tr') \<and>
         (p_state (module_params e) = ''present'' \<longrightarrow>
          get_server e (jstr (p_serverid (module_params e))) (jstr (p_hostname (module_params e))) tr
            = (Done None, tr0) \<longrightarrow>
            run n e tr = (Stop (Exit_json True None None), tr0)) \<and>
         (p_state (module_params e) = ''absent'' \<longrightarrow>
          get_server e (jstr (p_serverid (module_params e))) (jstr (p_hostname (module_params e))) tr
            = (Done (Some s), tr1) \<longrightarrow>
          serverid s = Inr (JStr sid) \<longrightarrow>
          (\<forall>i<k. status_answer e (tr1 @ lock_polls sid i) sid = Some (JStr ''locked'')) \<longrightarrow>
          status_answer e (tr1 @ lock_polls sid k) sid = Some v \<longrightarrow>
          v \<noteq> JStr ''locked'' \<longrightarrow>
          k < n \<longrightarrow>
            snd (run n e tr) =
              tr1 @ lock_polls sid k @ [Fetch (status_request sid), Fetch (destroy_request sid)] \<and>
            ((\<forall>msg. respond e (tr1 @ lock_polls sid k @ [Fetch (status_request sid)])
                      (destroy_request sid) \<noteq> HttpError msg) \<longrightarrow>
               fst (run n e tr) =
                 Stop (Exit_json True (Some (''Server '' @ sid @ '' deleted'')) None))) \<and>
         (p_state (module_params e) = ''absent'' \<longrightarrow>
            run n e tr = run n (e\<lparr>check_mode := False\<rparr>) tr) \<and>
         update_server n e srv c tr' = update_server n (e\<lparr>check_mode := False\<rparr>) srv c tr' \<and>
         (serverid srv = Inr sid' \<longrightarrow>
          get_server_details e sid' tr' = (Done data, tr1') \<longrightarrow>
          response_server data = Inr sd \<longrightarrow>
          needs_update (module_params e) sd = Inr True \<longrightarrow>
          update_params srv (desired_fields (module_params e)) = Inr fs \<longrightarrow>
          fs \<noteq> [] \<longrightarrow>
            prefix (tr1' @ [Fetch (edit_request (setitem fs ''serverid'' sid'))])
              (snd (update_server n e srv c tr')))"
proof (intro conjI impI)
  show "create_server e tr' = (Stop (Exit_json True None None), tr')"
    using assms by (simp add: create_server_def exit_json_def stop_def)
next
  assume st: "p_state (module_params e) = ''present''"
    and none: "get_server e (jstr (p_serverid (module_params e)))
                 (jstr (p_hostname (module_params e))) tr = (Done None, tr0)"
  have c: "create_server e tr0 = (Stop (Exit_json True None None), tr0)"
    using assms by (simp add: create_server_def exit_json_def stop_def)
  have "run_present n e None tr0 = (Stop (Exit_json True None None), tr0)"
    by (simp add: run_present_def bind_Stop [of "create_server e", OF c]
          bind_Stop [of "bind (create_server e) _"])
  then show "run n e tr = (Stop (Exit_json True None None), tr0)"
    using st
    by (simp add: run_def Let_def bind_ret
          bind_Done [of "get_server e (jstr (p_serverid (module_params e)))
                           (jstr (p_hostname (module_params e)))", OF none]
          bind_Stop [of "run_present n e None"]
          bind_Stop [of "bind (run_present n e None) _"])
next
  assume st: "p_state (module_params e) = ''absent''"
    and found: "get_server e (jstr (p_serverid (module_params e)))
                  (jstr (p_hostname (module_params e))) tr = (Done (Some s), tr1)"
    and sid: "serverid s = Inr (JStr sid)"
    and locked: "\<forall>i<k. status_answer e (tr1 @ lock_polls sid i) sid = Some (JStr ''locked'')"
    and clear: "status_answer e (tr1 @ lock_polls sid k) sid = Some v"
    and v: "v \<noteq> JStr ''locked''"
    and fuel: "k < n"
  let ?tr2 = "tr1 @ lock_polls sid k @ [Fetch (status_request sid)]"
  have lock: "wait_for_server_lock n e (JStr sid) tr1 = (Done (), ?tr2)"
    by (rule lock_wait_clears [OF locked clear v fuel])
  have r: "run n e tr = bind (run_absent n e (Some s)) (\<lambda>_. stop (Raised AttributeError)) tr1"
  proof -
    have "fst (run_absent n e (Some s) tr1) \<noteq> Done ()"
      unfolding run_absent_found [OF sid lock]
      by (cases "respond e ?tr2 (destroy_request sid)") simp_all
    then have "bind (run_absent n e (Some s)) f tr1 = bind (run_absent n e (Some s)) g tr1"
      for f g :: "unit \<Rightarrow> unit io"
      by (cases "run_absent n e (Some s) tr1"; cases "fst (run_absent n e (Some s) tr1)")
         (auto simp: bind_def)
    then show ?thesis
      using st
      by (simp add: run_def Let_def
            bind_Done [of "get_server e (jstr (p_serverid (module_params e)))
                             (jstr (p_hostname (module_params e)))", OF found])
  qed
  show "snd (run n e tr) =
          tr1 @ lock_polls sid k @ [Fetch (status_request sid), Fetch (destroy_request sid)]"
    unfolding r
    by (cases "respond e ?tr2 (destroy_request sid)")
       (simp_all add: bind_def run_absent_found [OF sid lock])
  show "fst (run n e tr) = Stop (Exit_json True (Some (''Server '' @ sid @ '' deleted'')) None)"
    if "\<forall>msg. respond e ?tr2 (destroy_request sid) \<noteq> HttpError msg"
    using that unfolding r
    by (cases "respond e ?tr2 (destroy_request sid)")
       (simp_all add: bind_def run_absent_found [OF sid lock])
next
  assume st: "p_state (module_params e) = ''absent''"
  show "run n e tr = run n (e\<lparr>check_mode := False\<rparr>) tr"
    by (simp only: run_absent_state_cm [OF st])
next
  show "update_server n e srv c tr' = update_server n (e\<lparr>check_mode := False\<rparr>) srv c tr'"
    by (simp only: update_server_cm)
next
  assume "serverid srv = Inr sid'" "get_server_details e sid' tr' = (Done data, tr1')"
    "response_server data = Inr sd" "needs_update (module_params e) sd = Inr True"
    "update_params srv (desired_fields (module_params e)) = Inr fs" "fs \<noteq> []"
  then show "prefix (tr1' @ [Fetch (edit_request (setitem fs ''serverid'' sid'))])
              (snd (update_server n e srv c tr'))"
    by (rule update_server_sends_edit)
qed


theorem check_mode_guards_only_create_witness:
  "check_mode (demo_env\<lparr>module_params := full_params\<lparr>p_state := ''absent''\<rparr>,
                        check_mode := True, respond := busy_provider 1 demo_server\<rparr>) \<and>
   run 3 (demo_env\<lparr>module_params := new_params, check_mode := True,
                   respond := fresh_provider demo_server\<rparr>) []
     = (Stop (Exit_json True None None), [Fetch list_request]) \<and>
   run 3 (demo_env\<lparr>module_params := full_params\<lparr>p_state := ''absent''\<rparr>, check_mode := True,
                   respond := busy_provider 1 demo_server\<rparr>) []
     = (Stop (Exit_json True (Some ''Server wps1 deleted'') None),
        [Fetch list_request, Fetch (details_request ''wps1''), Fetch (status_request ''wps1''),
         Sleep 1, Fetch (status_request ''wps1''), Fetch (destroy_request ''wps1'')]) \<and>
   prefix [Fetch (details_request ''wps1''),
           Fetch (edit_request [(''cpucores'', JInt 2), (''serverid'', JStr ''wps1'')])]
     (snd (update_server 3
             (demo_env\<lparr>module_params := full_params\<lparr>p_cpus := Some 2\<rparr>, check_mode := True\<rparr>)
             demo_server False []))"
proof -
  let ?c = "demo_env\<lparr>module_params := new_params, check_mode := True,
                     respond := fresh_provider demo_server\<rparr>"
  let ?a = "demo_env\<lparr>module_params := full_params\<lparr>p_state := ''absent''\<rparr>, check_mode := True,
                     respond := busy_provider 1 demo_server\<rparr>"
  let ?u = "demo_env\<lparr>module_params := full_params\<lparr>p_cpus := Some 2\<rparr>, check_mode := True\<rparr>"
  let ?s = "setitem demo_server ''state'' (JStr ''locked'')"
  let ?tr1 = "[Fetch list_request, Fetch (details_request ''wps1'')]"
  have cm: "check_mode ?c" "check_mode ?a" "check_mode ?u" by simp_all
  have pst: "p_state (module_params ?c) = ''present''" by code_simp
  have none: "get_server ?c (jstr (p_serverid (module_params ?c)))
                (jstr (p_hostname (module_params ?c))) [] = (Done None, [Fetch list_request])"
    by code_simp
  have st: "p_state (module_params ?a) = ''absent''" by code_simp
  have found: "get_server ?a (jstr (p_serverid (module_params ?a)))
                 (jstr (p_hostname (module_params ?a))) [] = (Done (Some ?s), ?tr1)"
    by code_simp
  have sid: "serverid ?s = Inr (JStr ''wps1'')" by code_simp
  have l0: "status_answer ?a (?tr1 @ lock_polls ''wps1'' 0) ''wps1'' = Some (JStr ''locked'')"
    by code_simp
  have locked: "\<forall>i<1. status_answer ?a (?tr1 @ lock_polls ''wps1'' i) ''wps1''
                  = Some (JStr ''locked'')"
    using l0 by simp
  have clear: "status_answer ?a (?tr1 @ lock_polls ''wps1'' 1) ''wps1'' = Some (JStr ''running'')"
    by code_simp
  have v: "JStr ''running'' \<noteq> JStr ''locked''" by simp
  have fuel: "(1::nat) < 3" by simp
  have ok: "\<forall>msg. respond ?a (?tr1 @ lock_polls ''wps1'' 1 @ [Fetch (status_request ''wps1'')])
                     (destroy_request ''wps1'') \<noteq> HttpError msg"
    by (simp add: busy_provider_def destroy_request_def)
  have sid': "serverid demo_server = Inr (JStr ''wps1'')" by code_simp
  have det: "get_server_details ?u (JStr ''wps1'') [] =
               (Done (Reply_server demo_server), [Fetch (details_request ''wps1'')])"
    by code_simp
  have rs: "response_server (Reply_server demo_server) = Inr demo_server" by simp
  have nu: "needs_update (module_params ?u) demo_server = Inr True" by code_simp
  have up: "update_params demo_server (desired_fields (module_params ?u)) =
              Inr [(''cpucores'', JInt 2)]"
    by code_simp
  have ne: "[(''cpucores'', JInt 2)] \<noteq> ([] :: dict)" by simp
  note c = check_mode_guards_only_create [OF cm(1), THEN conjunct2, THEN conjunct1,
             rule_format, OF pst none]
  note a = check_mode_guards_only_create [OF cm(2), THEN conjunct2, THEN conjunct2,
             THEN conjunct1, THEN mp, OF st, THEN mp, OF found, THEN mp, OF sid,
             THEN mp, OF locked, THEN mp, OF clear, THEN mp, OF v, THEN mp, OF fuel]
  note u = check_mode_guards_only_create [OF cm(3), THEN conjunct2, THEN conjunct2,
             THEN conjunct2, THEN conjunct2, THEN conjunct2, rule_format,
             OF sid' det rs nu up ne]
  have run: "run 3 ?a [] = (Stop (Exit_json True (Some ''Server wps1 deleted'') None),
        [Fetch list_request, Fetch (details_request ''wps1''), Fetch (status_request ''wps1''),
         Sleep 1, Fetch (status_request ''wps1''), Fetch (destroy_request ''wps1'')])"
    using a [THEN conjunct1] a [THEN conjunct2, THEN mp, OF ok]
    by (simp add: prod_eq_iff)
  show ?thesis
    using cm(2) c run u by simp
qed

end
